theory Spec2Isabelle
  imports Complex_Main
begin

section \<open>JSON values and the Python operations the client applies to them\<close>

text \<open>
  The client works on the dictionaries that \<^verbatim>\<open>response.json()\<close> returns.  A JSON value is
  modelled with one constructor per Python type it decodes to; an object is the list
  of its key/value pairs, looked up with \<open>map_of\<close>.  A Python float is a real number:
  rounding is not modelled.
\<close>

datatype json =
    JNull
  | JBool bool
  | JInt int
  | JFloat real
  | JStr string
  | JArr "json list"
  | JObj "(string \<times> json) list"

text \<open>Python truthiness (\<^verbatim>\<open>if x\<close>, \<^verbatim>\<open>not x\<close>, \<^verbatim>\<open>x or y\<close>).\<close>

fun truthy :: "json \<Rightarrow> bool" where
  "truthy JNull = False"
| "truthy (JBool b) = b"
| "truthy (JInt n) = (n \<noteq> 0)"
| "truthy (JFloat x) = (x \<noteq> 0)"
| "truthy (JStr s) = (s \<noteq> [])"
| "truthy (JArr xs) = (xs \<noteq> [])"
| "truthy (JObj kvs) = (kvs \<noteq> [])"

section \<open>Exceptions (\<^verbatim>\<open>exceptions.py\<close>)\<close>

text \<open>
  One constructor per exception class that can leave the client.  The first five are the
  classes of \<^verbatim>\<open>exceptions.py\<close>; \<open>OpenDeriskError\<close> carries message, details and
  suggestion, \<open>APIError\<close> adds the status code and the response.  The remaining
  constructors are the Python built-in exceptions the code can run into, and the
  validation error of the model classes.
\<close>

datatype error =
    OpenDeriskError string "string option" "string option"
  | ConfigError string "string option" "string option"
  | APIError string "int option" json "string option" "string option"
  | ValidationError string "string option" "string option"
  | TimeoutError string "string option" "string option"
  | PyAttributeError
  | PyTypeError
  | PyValueError
  | PyUnicodeDecodeError
  | ModelValidationError

text \<open>The exception class, which is what an \<^verbatim>\<open>except\<close> clause or a typed caller sees.\<close>

datatype exn_class =
    COpenDeriskError | CConfigError | CAPIError | CValidationError | CTimeoutError
  | CAttributeError | CTypeError | CValueError | CUnicodeDecodeError | CModelValidationError

fun class_of :: "error \<Rightarrow> exn_class" where
  "class_of (OpenDeriskError m d s) = COpenDeriskError"
| "class_of (ConfigError m d s) = CConfigError"
| "class_of (APIError m c r d s) = CAPIError"
| "class_of (ValidationError m d s) = CValidationError"
| "class_of (TimeoutError m d s) = CTimeoutError"
| "class_of PyAttributeError = CAttributeError"
| "class_of PyTypeError = CTypeError"
| "class_of PyValueError = CValueError"
| "class_of PyUnicodeDecodeError = CUnicodeDecodeError"
| "class_of ModelValidationError = CModelValidationError"

text \<open>
  \<^verbatim>\<open>APIError.__init__\<close>: the keyword arguments default to \<^verbatim>\<open>None\<close>, and the response is
  stored as \<^verbatim>\<open>response or {}\<close>.
\<close>

definition mk_APIError ::
  "string \<Rightarrow> int option \<Rightarrow> json option \<Rightarrow> string option \<Rightarrow> string option \<Rightarrow> error" where
  "mk_APIError message status_code response details suggestion =
     APIError message status_code
       (case response of
          None \<Rightarrow> JObj []
        | Some r \<Rightarrow> if truthy r then r else JObj [])
       details suggestion"

text \<open>\<^verbatim>\<open>d.get(key, default)\<close>; anything but a dictionary has no attribute \<^verbatim>\<open>get\<close>.\<close>

fun py_get :: "json \<Rightarrow> string \<Rightarrow> json \<Rightarrow> error + json" where
  "py_get (JObj kvs) key dflt =
     Inr (case map_of kvs key of None \<Rightarrow> dflt | Some v \<Rightarrow> v)"
| "py_get j key dflt = Inl PyAttributeError"

section \<open>Decimal rendering of integers (\<^verbatim>\<open>str(n)\<close> in an f-string)\<close>

definition digit_char :: "nat \<Rightarrow> char" where
  "digit_char d = ''0123456789'' ! (d mod 10)"

function str_nat :: "nat \<Rightarrow> string" where
  "str_nat n = (if n < 10 then [digit_char n] else str_nat (n div 10) @ [digit_char n])"
  by pat_completeness auto
termination
  by (relation "measure id") auto

definition str_int :: "int \<Rightarrow> string" where
  "str_int i = (if i < 0 then CHR ''-'' # str_nat (nat (- i)) else str_nat (nat i))"

section \<open>Transport (\<^verbatim>\<open>client/http.py\<close>)\<close>

text \<open>
  What the HTTP library hands back for one exchange.  Either \<^verbatim>\<open>client.request\<close> raises
  \<^verbatim>\<open>httpx.RequestError\<close> (no response was obtained; the string is \<^verbatim>\<open>str(e)\<close>), or a
  response arrives.  A response has its status code, its body text, what
  \<^verbatim>\<open>response.json()\<close> does on it, and the text \<^verbatim>\<open>str(e)\<close> of the \<^verbatim>\<open>HTTPStatusError\<close> that
  \<^verbatim>\<open>raise_for_status\<close> would build.  \<^verbatim>\<open>response.json()\<close> returns the decoded value, raises
  \<^verbatim>\<open>JSONDecodeError\<close> on a body that is text but not JSON, or raises \<^verbatim>\<open>UnicodeDecodeError\<close>
  on a body whose bytes are not text.
\<close>

datatype decoding = Decoded json | JSONDecodeError | UnicodeDecodeError

record http_response =
  status_code :: int
  body :: string
  decoded :: decoding
  status_text :: string

datatype http_outcome =
    RequestError string
  | Response http_response

text \<open>\<^verbatim>\<open>raise_for_status\<close> raises for every status outside 200..299.\<close>

definition is_success :: "http_response \<Rightarrow> bool" where
  "is_success r = (200 \<le> status_code r \<and> status_code r \<le> 299)"

text \<open>
  \<^verbatim>\<open>_safe_parse_json\<close>: the decoded body, or the raw text under the key \<^verbatim>\<open>text\<close>; its
  \<^verbatim>\<open>except Exception\<close> catches whatever decoding raises.
\<close>

definition safe_parse_json :: "http_response \<Rightarrow> json" where
  "safe_parse_json r =
     (case decoded r of
        Decoded j \<Rightarrow> j
      | JSONDecodeError \<Rightarrow> JObj [(''text'', JStr (body r))]
      | UnicodeDecodeError \<Rightarrow> JObj [(''text'', JStr (body r))])"

text \<open>
  \<^verbatim>\<open>_make_request\<close>, as a function of what the exchange produced.  The three
  \<^verbatim>\<open>raise\<close> statements all construct \<^verbatim>\<open>APIError\<close>.  On a response with a good status
  only \<^verbatim>\<open>JSONDecodeError\<close> is caught (lines 86 to 94): a \<^verbatim>\<open>UnicodeDecodeError\<close> of
  \<^verbatim>\<open>response.json()\<close> leaves \<^verbatim>\<open>_make_request\<close> as it is.
\<close>

definition make_request :: "http_outcome \<Rightarrow> error + json" where
  "make_request out =
     (case out of
        RequestError e \<Rightarrow>
          Inl (mk_APIError ''Network error'' None None (Some e)
                 (Some ''Check your network connection and try again''))
      | Response r \<Rightarrow>
          if \<not> is_success r then
            Inl (mk_APIError (''API request failed: '' @ str_int (status_code r))
                   (Some (status_code r)) (Some (safe_parse_json r)) (Some (status_text r))
                   (Some ''Check your request parameters and try again''))
          else if body r = [] then Inr (JObj [])
          else
            (case decoded r of
               Decoded j \<Rightarrow> Inr j
             | JSONDecodeError \<Rightarrow>
                 Inl (mk_APIError ''Server returned invalid JSON response'' None None
                        (Some (''Response content: '' @
                           (if body r \<noteq> [] then take 200 (body r) else ''empty'')))
                        (Some ''Please check if the server is running properly''))
             | UnicodeDecodeError \<Rightarrow> Inl PyUnicodeDecodeError))"

section \<open>Chat models (\<^verbatim>\<open>models/chat.py\<close>)\<close>

text \<open>
  \<^verbatim>\<open>ChatCompletionRequest\<close>, field by field.  The class declares no validator: a field
  holds whatever value of its type the caller passes.
\<close>

record ChatCompletionRequest =
  conv_uid :: "string option"
  user_input :: json
  messages :: "json list option"
  app_code :: "string option"
  app_config_code :: "string option"
  team_mode :: "string option"
  user_name :: "string option"
  sys_code :: "string option"
  temperature :: "real option"
  max_new_tokens :: "int option"
  model_name :: "string option"
  incremental :: bool
  select_param :: "json option"
  prompt_code :: "string option"
  chat_in_params :: "json list option"
  ext_info :: "(string \<times> json) list option"
  work_mode :: "string option"

text \<open>A field that is \<^verbatim>\<open>None\<close> is left out of \<^verbatim>\<open>model_dump(exclude_none=True)\<close>.\<close>

definition dump_field :: "string \<Rightarrow> json option \<Rightarrow> (string \<times> json) list" where
  "dump_field key v = (case v of None \<Rightarrow> [] | Some j \<Rightarrow> [(key, j)])"

definition model_dump :: "ChatCompletionRequest \<Rightarrow> (string \<times> json) list" where
  "model_dump r =
     dump_field ''conv_uid'' (map_option JStr (conv_uid r)) @
     [(''user_input'', user_input r)] @
     dump_field ''messages'' (map_option JArr (messages r)) @
     dump_field ''app_code'' (map_option JStr (app_code r)) @
     dump_field ''app_config_code'' (map_option JStr (app_config_code r)) @
     dump_field ''team_mode'' (map_option JStr (team_mode r)) @
     dump_field ''user_name'' (map_option JStr (user_name r)) @
     dump_field ''sys_code'' (map_option JStr (sys_code r)) @
     dump_field ''temperature'' (map_option JFloat (temperature r)) @
     dump_field ''max_new_tokens'' (map_option JInt (max_new_tokens r)) @
     dump_field ''model_name'' (map_option JStr (model_name r)) @
     [(''incremental'', JBool (incremental r))] @
     dump_field ''select_param'' (select_param r) @
     dump_field ''prompt_code'' (map_option JStr (prompt_code r)) @
     dump_field ''chat_in_params'' (map_option JArr (chat_in_params r)) @
     dump_field ''ext_info'' (map_option JObj (ext_info r)) @
     dump_field ''work_mode'' (map_option JStr (work_mode r))"

section \<open>The world the client runs in\<close>

text \<open>
  The client reads the wall clock, sleeps and exchanges HTTP messages.  The world holds
  the clock (in seconds) and, for each exchange still to come, how long it takes and
  what it produces.  A request issued when nothing is left in the script has no
  described outcome.  Time passes only while an exchange is under way and during a
  sleep, which takes exactly its length.
\<close>

record world =
  now :: real
  script :: "(real \<times> http_outcome) list"

datatype http_method = GET | POST | PUT | DELETE

record http_request =
  req_method :: http_method
  req_path :: string
  req_json :: "json option"
  req_params :: "(string \<times> json) list option"

text \<open>One call of \<^verbatim>\<open>_make_request\<close>: the next scripted exchange, and the clock after it.\<close>

definition http_call :: "world \<Rightarrow> ((error + json) \<times> world) option" where
  "http_call w =
     (case script w of
        [] \<Rightarrow> None
      | (d, out) # rest \<Rightarrow> Some (make_request out, w\<lparr>now := now w + d, script := rest\<rparr>))"

text \<open>\<^verbatim>\<open>time.sleep\<close>, which rejects a negative length.\<close>

definition py_sleep :: "real \<Rightarrow> world \<Rightarrow> error + world" where
  "py_sleep secs w = (if secs < 0 then Inl PyValueError else Inr (w\<lparr>now := now w + secs\<rparr>))"

definition slept :: "real \<Rightarrow> world \<Rightarrow> world" where
  "slept secs w = w\<lparr>now := now w + secs\<rparr>"

section \<open>Chat client (\<^verbatim>\<open>client/chat.py\<close>)\<close>

text \<open>The keyword arguments of \<^verbatim>\<open>chat_completions\<close>, with their Python types.\<close>

record chat_kwargs =
  kw_user_input :: string
  kw_conv_uid :: "string option"
  kw_app_code :: "string option"
  kw_model_name :: "string option"
  kw_temperature :: "real option"
  kw_max_new_tokens :: "int option"
  kw_incremental :: bool
  kw_user_name :: "string option"
  kw_messages :: "json list option"
  timeout :: int
  max_retries :: int
  initial_delay :: real

text \<open>\<^verbatim>\<open>user_name or "cli_user"\<close>: \<^verbatim>\<open>None\<close> and the empty string are both falsy.\<close>

definition user_name_or_default :: "string option \<Rightarrow> string" where
  "user_name_or_default u =
     (case u of None \<Rightarrow> ''cli_user'' | Some n \<Rightarrow> if n = [] then ''cli_user'' else n)"

text \<open>The request object built at the start of \<^verbatim>\<open>chat_completions\<close>.\<close>

definition build_request :: "chat_kwargs \<Rightarrow> ChatCompletionRequest" where
  "build_request kw =
     \<lparr> conv_uid = kw_conv_uid kw,
       user_input = JStr (kw_user_input kw),
       messages = kw_messages kw,
       app_code = kw_app_code kw,
       app_config_code = None,
       team_mode = None,
       user_name = Some (user_name_or_default (kw_user_name kw)),
       sys_code = None,
       temperature = kw_temperature kw,
       max_new_tokens = kw_max_new_tokens kw,
       model_name = kw_model_name kw,
       incremental = kw_incremental kw,
       select_param = None,
       prompt_code = None,
       chat_in_params = None,
       ext_info = Some [],
       work_mode = Some ''async'' \<rparr>"

definition submit_request :: "chat_kwargs \<Rightarrow> http_request" where
  "submit_request kw =
     \<lparr> req_method = POST, req_path = ''/api/v1/chat/completions'',
       req_json = Some (JObj (model_dump (build_request kw))), req_params = None \<rparr>"

definition query_request :: "json \<Rightarrow> http_request" where
  "query_request conv_id =
     \<lparr> req_method = GET, req_path = ''/api/v1/chat/query'',
       req_json = None, req_params = Some [(''conv_id'', conv_id)] \<rparr>"

text \<open>
  A run of the generator, drained to its end: the chunks it yielded, how it ended, the
  requests it issued, what each poll produced and when that arrived, and the world
  it left.  \<open>Unscripted\<close> is a run that issued a request the world does not describe.
\<close>

datatype ending = Returned | Raised error | Unscripted

record run =
  chunks :: "json list"
  ending :: ending
  requests :: "http_request list"
  received :: "(real \<times> (error + json)) list"
  finish :: world

definition stop :: "ending \<Rightarrow> world \<Rightarrow> run" where
  "stop e w = \<lparr> chunks = [], ending = e, requests = [], received = [], finish = w \<rparr>"

definition yield_then_return :: "json \<Rightarrow> world \<Rightarrow> run" where
  "yield_then_return chunk w =
     \<lparr> chunks = [chunk], ending = Returned, requests = [], received = [], finish = w \<rparr>"

definition sent :: "http_request \<Rightarrow> run \<Rightarrow> run" where
  "sent req r = r\<lparr>requests := req # requests r\<rparr>"

definition heard :: "real \<times> (error + json) \<Rightarrow> run \<Rightarrow> run" where
  "heard rcv r = r\<lparr>received := rcv # received r\<rparr>"

text \<open>
  What one poll response makes the loop do (lines 103 to 121): raise, finish with the
  answer it carries, or go round again with the retry counter it then has.
\<close>

datatype verdict = Fatal error | Final json | Again int

definition judge :: "int \<Rightarrow> int \<Rightarrow> json \<Rightarrow> verdict" where
  "judge max_retries' retry_count query_response =
     (case py_get query_response ''success'' JNull of
        Inl e \<Rightarrow> Fatal e
      | Inr success \<Rightarrow>
          if \<not> truthy success then
            (case py_get query_response ''code'' (JStr []) of
               Inl e \<Rightarrow> Fatal e
             | Inr error_code \<Rightarrow>
                 if error_code = JStr ''E0103'' \<and> retry_count < max_retries'
                 then Again (retry_count + 1)
                 else Fatal (mk_APIError ''Failed to query chat status'' None
                               (Some query_response) None None))
          else
            (case py_get query_response ''data'' (JObj []) of
               Inl e \<Rightarrow> Fatal e
             | Inr query_data \<Rightarrow>
                 (case py_get query_data ''is_final'' (JBool False) of
                    Inl e \<Rightarrow> Fatal e
                  | Inr is_final \<Rightarrow>
                      (case py_get query_data ''user_answer'' (JStr []) of
                         Inl e \<Rightarrow> Fatal e
                       | Inr user_answer \<Rightarrow>
                           if truthy is_final then Final user_answer
                           else Again retry_count))))"

text \<open>
  The polling loop (lines 97 to 126).  The guard reads the clock before each poll; both
  ways round the loop sleep one second first.
\<close>

function poll_loop :: "int \<Rightarrow> int \<Rightarrow> json \<Rightarrow> real \<Rightarrow> int \<Rightarrow> world \<Rightarrow> run" where
  "poll_loop timeout' max_retries' conv_id start_time retry_count w =
     (if now w - start_time < real_of_int timeout' then
        sent (query_request conv_id)
          (case http_call w of
             None \<Rightarrow> stop Unscripted w
           | Some (res, w1) \<Rightarrow>
               heard (now w1, res)
                 (case res of
                    Inl e \<Rightarrow> stop (Raised e) w1
                  | Inr query_response \<Rightarrow>
                      (case judge max_retries' retry_count query_response of
                         Fatal e \<Rightarrow> stop (Raised e) w1
                       | Final user_answer \<Rightarrow>
                           if truthy user_answer then yield_then_return user_answer w1
                           else stop Returned w1
                       | Again retry_count' \<Rightarrow>
                           poll_loop timeout' max_retries' conv_id start_time retry_count'
                             (slept 1 w1))))
      else
        stop (Raised (TimeoutError ''Chat timed out'' None
                (Some (''The chat did not complete within '' @ str_int timeout' @ '' seconds.''))))
          w)"
  by pat_completeness auto
termination
  by (relation "measure (\<lambda>(t, m, c, s, r, w). length (script w))")
     (auto simp: http_call_def slept_def split: list.splits prod.splits)

text \<open>
  Lines 56 to 96: build and post the request, check the answer, take the conversation
  id, sleep for the initial delay and read the clock.
\<close>

datatype 'a attempt = Got 'a | Failed error world | Silent

definition submit_chat :: "chat_kwargs \<Rightarrow> world \<Rightarrow> (json \<times> world) attempt" where
  "submit_chat kw w =
     (case http_call w of
        None \<Rightarrow> Silent
      | Some (Inl e, w1) \<Rightarrow> Failed e w1
      | Some (Inr response, w1) \<Rightarrow>
          (case py_get response ''success'' JNull of
             Inl e \<Rightarrow> Failed e w1
           | Inr success \<Rightarrow>
               if \<not> truthy success then
                 Failed (mk_APIError ''Failed to submit chat'' None (Some response) None None) w1
               else
                 (case py_get response ''data'' (JObj []) of
                    Inl e \<Rightarrow> Failed e w1
                  | Inr data \<Rightarrow>
                      (case py_get data ''conv_id'' JNull of
                         Inl e \<Rightarrow> Failed e w1
                       | Inr conv_id \<Rightarrow>
                           if \<not> truthy conv_id then
                             Failed (mk_APIError ''No conv_id in response'' None (Some response)
                                       None None) w1
                           else
                             (case py_sleep (initial_delay kw) w1 of
                                Inl e \<Rightarrow> Failed e w1
                              | Inr w2 \<Rightarrow> Got (conv_id, w2))))))"

definition chat_completions :: "chat_kwargs \<Rightarrow> world \<Rightarrow> run" where
  "chat_completions kw w =
     sent (submit_request kw)
       (case submit_chat kw w of
          Silent \<Rightarrow> stop Unscripted w
        | Failed e w1 \<Rightarrow> stop (Raised e) w1
        | Got (conv_id, w2) \<Rightarrow>
            poll_loop (timeout kw) (max_retries kw) conv_id (now w2) 0 w2)"

text \<open>
  \<^verbatim>\<open>"".join(result_chunks)\<close>: the concatenation of the strings, and a \<^verbatim>\<open>TypeError\<close> when an
  item is not a string.
\<close>

fun py_join :: "json list \<Rightarrow> error + string" where
  "py_join [] = Inr []"
| "py_join (JStr s # rest) = (case py_join rest of Inl e \<Rightarrow> Inl e | Inr t \<Rightarrow> Inr (s @ t))"
| "py_join (j # rest) = Inl PyTypeError"

text \<open>
  What a plain method call does: return a value, raise, or issue a request the world
  does not describe.
\<close>

datatype 'a result = Value 'a | Raise error | Undescribed

text \<open>
  \<^verbatim>\<open>chat_async\<close> (lines 148 to 159).  The other keyword arguments of \<^verbatim>\<open>chat_completions\<close>
  keep their defaults.  \<open>drain_and_join\<close> is what the \<^verbatim>\<open>for\<close> statement and the \<^verbatim>\<open>return\<close>
  do with the run of a generator, whatever it yields: the loop appends each chunk to
  \<^verbatim>\<open>result_chunks\<close>, an exception of the generator leaves through the \<^verbatim>\<open>for\<close> statement,
  and the chunks are joined once the generator has returned.
\<close>

definition async_kwargs ::
  "string \<Rightarrow> string option \<Rightarrow> string option \<Rightarrow> string option \<Rightarrow> int \<Rightarrow> chat_kwargs" where
  "async_kwargs user_input' conv_uid' app_code' model_name' timeout' =
     \<lparr> kw_user_input = user_input',
       kw_conv_uid = conv_uid',
       kw_app_code = app_code',
       kw_model_name = model_name',
       kw_temperature = None,
       kw_max_new_tokens = None,
       kw_incremental = True,
       kw_user_name = None,
       kw_messages = None,
       timeout = timeout',
       max_retries = 10,
       initial_delay = 2 \<rparr>"

definition drain_and_join :: "run \<Rightarrow> string result" where
  "drain_and_join r =
     (let result_chunks = fold (\<lambda>chunk acc. acc @ [chunk]) (chunks r) []
      in case ending r of
           Unscripted \<Rightarrow> Undescribed
         | Raised e \<Rightarrow> Raise e
         | Returned \<Rightarrow> (case py_join result_chunks of Inl e \<Rightarrow> Raise e | Inr s \<Rightarrow> Value s))"

definition chat_async ::
  "string \<Rightarrow> string option \<Rightarrow> string option \<Rightarrow> string option \<Rightarrow> int \<Rightarrow> world \<Rightarrow> string result" where
  "chat_async user_input' conv_uid' app_code' model_name' timeout' w =
     drain_and_join
       (chat_completions (async_kwargs user_input' conv_uid' app_code' model_name' timeout') w)"

text \<open>\<^verbatim>\<open>delete_conversation\<close> and \<^verbatim>\<open>stop_chat\<close> return \<^verbatim>\<open>response.get("success", False)\<close>.\<close>

definition success_flag :: "world \<Rightarrow> json result" where
  "success_flag w =
     (case http_call w of
        None \<Rightarrow> Undescribed
      | Some (Inl e, w1) \<Rightarrow> Raise e
      | Some (Inr response, w1) \<Rightarrow>
          (case py_get response ''success'' (JBool False) of
             Inl e \<Rightarrow> Raise e
           | Inr flag \<Rightarrow> Value flag))"

definition delete_conversation :: "string \<Rightarrow> world \<Rightarrow> json result" where
  "delete_conversation conv_uid' w = success_flag w"

definition stop_chat :: "string \<Rightarrow> world \<Rightarrow> json result" where
  "stop_chat conv_session_id w = success_flag w"

text \<open>
  Iterating a decoded JSON value (\<^verbatim>\<open>for item in response["data"]\<close>): a list gives its
  items, a dictionary its keys, a string its characters; nothing else is iterable.
\<close>

fun py_iter :: "json \<Rightarrow> error + json list" where
  "py_iter (JArr xs) = Inr xs"
| "py_iter (JObj kvs) = Inr (map (\<lambda>kv. JStr (fst kv)) kvs)"
| "py_iter (JStr s) = Inr (map (\<lambda>c. JStr [c]) s)"
| "py_iter j = Inl PyTypeError"

text \<open>
  A list comprehension \<^verbatim>\<open>[C(**item) for item in items]\<close>: the first item the constructor
  rejects ends it.  The constructors are those of the model classes, whose validation
  is the model library's; they are taken as a parameter.
\<close>

fun construct_all :: "(json \<Rightarrow> error + 'm) \<Rightarrow> json list \<Rightarrow> error + 'm list" where
  "construct_all new [] = Inr []"
| "construct_all new (item # rest) =
     (case new item of
        Inl e \<Rightarrow> Inl e
      | Inr m \<Rightarrow> (case construct_all new rest of Inl e \<Rightarrow> Inl e | Inr ms \<Rightarrow> Inr (m # ms)))"

definition result_of :: "error + 'a \<Rightarrow> 'a result" where
  "result_of x = (case x of Inl e \<Rightarrow> Raise e | Inr v \<Rightarrow> Value v)"

text \<open>
  \<^verbatim>\<open>response.get("success") and response.get("data")\<close> as a condition; both reads are of
  the same value, so the second cannot fail where the first did not.
\<close>

definition success_and_data :: "json \<Rightarrow> error + json option" where
  "success_and_data response =
     (case py_get response ''success'' JNull of
        Inl e \<Rightarrow> Inl e
      | Inr success \<Rightarrow>
          if \<not> truthy success then Inr None
          else
            (case py_get response ''data'' JNull of
               Inl e \<Rightarrow> Inl e
             | Inr data \<Rightarrow> if truthy data then Inr (Some data) else Inr None))"

definition list_conversations ::
  "(json \<Rightarrow> error + 'c) \<Rightarrow> string option \<Rightarrow> int \<Rightarrow> int \<Rightarrow> world \<Rightarrow> 'c list result" where
  "list_conversations ConversationResponse user_name' page page_size w =
     (case http_call w of
        None \<Rightarrow> Undescribed
      | Some (Inl e, w1) \<Rightarrow> Raise e
      | Some (Inr response, w1) \<Rightarrow>
          (case success_and_data response of
             Inl e \<Rightarrow> Raise e
           | Inr None \<Rightarrow> Value []
           | Inr (Some data) \<Rightarrow>
               (case py_iter data of
                  Inl e \<Rightarrow> Raise e
                | Inr items \<Rightarrow> result_of (construct_all ConversationResponse items))))"

text \<open>
  Membership in the set \<^verbatim>\<open>seen_names\<close>.  Lists and dictionaries are unhashable; numbers
  and booleans compare by value across their types.
\<close>

fun numeric :: "json \<Rightarrow> real option" where
  "numeric (JBool b) = Some (if b then 1 else 0)"
| "numeric (JInt n) = Some (real_of_int n)"
| "numeric (JFloat x) = Some x"
| "numeric j = None"

definition py_eq :: "json \<Rightarrow> json \<Rightarrow> bool" where
  "py_eq a b = (a = b \<or> (numeric a \<noteq> None \<and> numeric a = numeric b))"

fun hashable :: "json \<Rightarrow> bool" where
  "hashable (JArr xs) = False"
| "hashable (JObj kvs) = False"
| "hashable j = True"

definition py_in :: "json \<Rightarrow> json list \<Rightarrow> error + bool" where
  "py_in x names = (if hashable x then Inr (\<exists>y \<in> set names. py_eq x y) else Inl PyTypeError)"

text \<open>The loop of \<^verbatim>\<open>list_models\<close> (lines 216 to 221), with its two local variables.\<close>

fun models_loop ::
  "(json \<Rightarrow> error + 'm) \<Rightarrow> json list \<Rightarrow> json list \<Rightarrow> 'm list \<Rightarrow> error + 'm list" where
  "models_loop ModelInfo [] seen_names healthy_models = Inr healthy_models"
| "models_loop ModelInfo (item # rest) seen_names healthy_models =
     (case py_get item ''healthy'' JNull of
        Inl e \<Rightarrow> Inl e
      | Inr healthy \<Rightarrow>
          if truthy healthy then
            (case py_get item ''model_name'' JNull of
               Inl e \<Rightarrow> Inl e
             | Inr model_name' \<Rightarrow>
                 if truthy model_name' then
                   (case py_in model_name' seen_names of
                      Inl e \<Rightarrow> Inl e
                    | Inr known \<Rightarrow>
                        if \<not> known then
                          (case ModelInfo item of
                             Inl e \<Rightarrow> Inl e
                           | Inr m \<Rightarrow>
                               models_loop ModelInfo rest (model_name' # seen_names)
                                 (healthy_models @ [m]))
                        else models_loop ModelInfo rest seen_names healthy_models)
                 else models_loop ModelInfo rest seen_names healthy_models)
          else models_loop ModelInfo rest seen_names healthy_models)"

definition list_models :: "(json \<Rightarrow> error + 'm) \<Rightarrow> world \<Rightarrow> 'm list result" where
  "list_models ModelInfo w =
     (case http_call w of
        None \<Rightarrow> Undescribed
      | Some (Inl e, w1) \<Rightarrow> Raise e
      | Some (Inr response, w1) \<Rightarrow>
          (case success_and_data response of
             Inl e \<Rightarrow> Raise e
           | Inr None \<Rightarrow> Value []
           | Inr (Some data) \<Rightarrow>
               (case py_iter data of
                  Inl e \<Rightarrow> Raise e
                | Inr items \<Rightarrow> result_of (models_loop ModelInfo items [] []))))"

section \<open>Vocabulary of the properties\<close>

text \<open>
  The response shapes the protocol distinguishes, as predicates on what a poll produced.
  \<open>session_not_found\<close>: a decoded response with \<^verbatim>\<open>success: false\<close> and \<^verbatim>\<open>code: "E0103"\<close>.
  \<open>final_data\<close>: the data section of a response with \<^verbatim>\<open>success: true\<close> and
  \<^verbatim>\<open>is_final: true\<close>.  \<open>pending\<close>: a response with \<^verbatim>\<open>success: true\<close> whose data section
  does not report a final state.
\<close>

fun session_not_found :: "error + json \<Rightarrow> bool" where
  "session_not_found (Inr (JObj kvs)) =
     (map_of kvs ''success'' = Some (JBool False) \<and> map_of kvs ''code'' = Some (JStr ''E0103''))"
| "session_not_found p = False"

fun final_data :: "error + json \<Rightarrow> (string \<times> json) list option" where
  "final_data (Inr (JObj kvs)) =
     (if map_of kvs ''success'' = Some (JBool True) then
        (case map_of kvs ''data'' of
           Some (JObj d) \<Rightarrow> if map_of d ''is_final'' = Some (JBool True) then Some d else None
         | _ \<Rightarrow> None)
      else None)"
| "final_data p = None"

fun pending :: "error + json \<Rightarrow> bool" where
  "pending (Inr (JObj kvs)) =
     (map_of kvs ''success'' = Some (JBool True) \<and>
      (case map_of kvs ''data'' of
         Some (JObj d) \<Rightarrow> (case map_of d ''is_final'' of None \<Rightarrow> True | Some f \<Rightarrow> \<not> truthy f)
       | _ \<Rightarrow> False))"
| "pending p = False"

text \<open>A poll attempt is a \<^verbatim>\<open>GET\<close> of the chat-status endpoint.\<close>

definition is_poll :: "http_request \<Rightarrow> bool" where
  "is_poll q = (req_method q = GET \<and> req_path q = ''/api/v1/chat/query'')"

text \<open>A field of the JSON payload a request carries.\<close>

definition payload_field :: "http_request \<Rightarrow> string \<Rightarrow> json option" where
  "payload_field q key = (case req_json q of Some (JObj kvs) \<Rightarrow> map_of kvs key | _ \<Rightarrow> None)"

text \<open>The class of the exception a call raised, if it raised one.\<close>

definition raised_class :: "error + 'a \<Rightarrow> exn_class option" where
  "raised_class x = (case x of Inl e \<Rightarrow> Some (class_of e) | Inr v \<Rightarrow> None)"

text \<open>A response with status 200 whose body decodes to the given value.\<close>

definition ok_response :: "json \<Rightarrow> http_outcome" where
  "ok_response j =
     Response \<lparr> status_code = 200, body = ''{}'', decoded = Decoded j, status_text = [] \<rparr>"

text \<open>
  The invariant the specification states for a chat request, in its words: exactly one
  of plain text input and structured messages is populated, and the maximal token
  count, if present, is not negative.
\<close>

definition has_text :: "ChatCompletionRequest \<Rightarrow> bool" where
  "has_text r = truthy (user_input r)"

definition has_messages :: "ChatCompletionRequest \<Rightarrow> bool" where
  "has_messages r = (case messages r of None \<Rightarrow> False | Some ms \<Rightarrow> ms \<noteq> [])"

definition spec_request_invariant :: "ChatCompletionRequest \<Rightarrow> bool" where
  "spec_request_invariant r =
     ((has_text r \<noteq> has_messages r) \<and>
      (case max_new_tokens r of None \<Rightarrow> True | Some n \<Rightarrow> 0 \<le> n))"

text \<open>
  The model feed in the words of the specification: an entry is healthy when its
  \<^verbatim>\<open>healthy\<close> field is set, its name is its \<^verbatim>\<open>model_name\<close> field, and deduplication keeps
  the first entry of each name.  \<open>entry\<close> is the shape of a feed item: an object whose
  \<^verbatim>\<open>model_name\<close>, when present, is a string or null.
\<close>

definition healthy_entry :: "json \<Rightarrow> bool" where
  "healthy_entry item =
     (case py_get item ''healthy'' JNull of Inr h \<Rightarrow> truthy h | Inl e \<Rightarrow> False)"

definition name_of :: "json \<Rightarrow> json" where
  "name_of item = (case py_get item ''model_name'' JNull of Inr n \<Rightarrow> n | Inl e \<Rightarrow> JNull)"

fun first_by_name :: "json list \<Rightarrow> json list" where
  "first_by_name [] = []"
| "first_by_name (x # xs) = x # first_by_name (filter (\<lambda>y. name_of y \<noteq> name_of x) xs)"

definition spec_list_models :: "json list \<Rightarrow> json list" where
  "spec_list_models feed = first_by_name (filter healthy_entry feed)"

fun entry :: "json \<Rightarrow> bool" where
  "entry (JObj kvs) =
     (case map_of kvs ''model_name'' of
        None \<Rightarrow> True | Some JNull \<Rightarrow> True | Some (JStr s) \<Rightarrow> True | Some j \<Rightarrow> False)"
| "entry j = False"

text \<open>The entries the loop of \<^verbatim>\<open>list_models\<close> lets through: healthy, with a name that is not empty.\<close>

definition listed :: "json \<Rightarrow> bool" where
  "listed item = (healthy_entry item \<and> truthy (name_of item))"

text \<open>Responses used in the examples: the envelopes of the specification's scenarios.\<close>

definition submitted :: "string \<Rightarrow> http_outcome" where
  "submitted c =
     ok_response (JObj [(''success'', JBool True), (''data'', JObj [(''conv_id'', JStr c)])])"

definition not_found_yet :: http_outcome where
  "not_found_yet = ok_response (JObj [(''success'', JBool False), (''code'', JStr ''E0103'')])"

definition still_running :: http_outcome where
  "still_running =
     ok_response (JObj [(''success'', JBool True), (''data'', JObj [(''is_final'', JBool False)])])"

definition finished :: "string \<Rightarrow> http_outcome" where
  "finished a =
     ok_response (JObj [(''success'', JBool True),
                        (''data'', JObj [(''is_final'', JBool True), (''user_answer'', JStr a)])])"

definition finished_silent :: http_outcome where
  "finished_silent =
     ok_response (JObj [(''success'', JBool True), (''data'', JObj [(''is_final'', JBool True)])])"

section \<open>The polling loop, case by case\<close>

lemma poll_loop_timed_out:
  "\<not> now w - s < real_of_int t \<Longrightarrow>
   poll_loop t m c s r w =
     stop (Raised (TimeoutError ''Chat timed out'' None
       (Some (''The chat did not complete within '' @ str_int t @ '' seconds.'')))) w"
  by simp

lemma poll_loop_unscripted:
  "now w - s < real_of_int t \<Longrightarrow> http_call w = None \<Longrightarrow>
   poll_loop t m c s r w = sent (query_request c) (stop Unscripted w)"
  by simp

lemma poll_loop_transport_error:
  "now w - s < real_of_int t \<Longrightarrow> http_call w = Some (Inl e, w1) \<Longrightarrow>
   poll_loop t m c s r w = sent (query_request c) (heard (now w1, Inl e) (stop (Raised e) w1))"
  by simp

lemma poll_loop_fatal:
  "now w - s < real_of_int t \<Longrightarrow> http_call w = Some (Inr j, w1) \<Longrightarrow> judge m r j = Fatal e \<Longrightarrow>
   poll_loop t m c s r w = sent (query_request c) (heard (now w1, Inr j) (stop (Raised e) w1))"
  by simp

lemma poll_loop_final:
  "now w - s < real_of_int t \<Longrightarrow> http_call w = Some (Inr j, w1) \<Longrightarrow> judge m r j = Final a \<Longrightarrow>
   poll_loop t m c s r w =
     sent (query_request c) (heard (now w1, Inr j)
       (if truthy a then yield_then_return a w1 else stop Returned w1))"
  by simp

lemma poll_loop_again:
  "now w - s < real_of_int t \<Longrightarrow> http_call w = Some (Inr j, w1) \<Longrightarrow> judge m r j = Again r' \<Longrightarrow>
   poll_loop t m c s r w =
     sent (query_request c) (heard (now w1, Inr j) (poll_loop t m c s r' (slept 1 w1)))"
  by simp

declare poll_loop.simps [simp del]

lemma run_fields [simp]:
  "chunks (sent q x) = chunks x" "ending (sent q x) = ending x"
  "received (sent q x) = received x" "requests (sent q x) = q # requests x"
  "finish (sent q x) = finish x"
  "chunks (heard p x) = chunks x" "ending (heard p x) = ending x"
  "received (heard p x) = p # received x" "requests (heard p x) = requests x"
  "finish (heard p x) = finish x"
  "chunks (stop e w) = []" "ending (stop e w) = e" "received (stop e w) = []"
  "requests (stop e w) = []" "finish (stop e w) = w"
  "chunks (yield_then_return a w) = [a]" "ending (yield_then_return a w) = Returned"
  "received (yield_then_return a w) = []" "requests (yield_then_return a w) = []"
  "finish (yield_then_return a w) = w"
  by (simp_all add: sent_def heard_def stop_def yield_then_return_def)

subsection \<open>What the loop makes of each response shape\<close>

lemma judge_Final_any: "judge m r j = Final a \<Longrightarrow> judge m' r' j = Final a"
  by (auto simp: judge_def split: sum.splits if_splits)

lemma judge_Again: "judge m r j = Again r' \<Longrightarrow> r' = r \<or> (r' = r + 1 \<and> r < m)"
  by (auto simp: judge_def split: sum.splits if_splits)

lemma judge_final_data:
  "final_data (Inr j) = Some d \<Longrightarrow>
   judge m r j = Final (case map_of d ''user_answer'' of None \<Rightarrow> JStr [] | Some v \<Rightarrow> v)"
  by (cases j) (auto simp: judge_def split: option.splits json.splits if_splits)

lemma judge_pending: "pending (Inr j) \<Longrightarrow> judge m r j = Again r"
  by (cases j) (auto simp: judge_def split: option.splits json.splits if_splits)

lemma judge_session_not_found:
  "session_not_found (Inr j) \<Longrightarrow>
   judge m r j = (if r < m then Again (r + 1)
                  else Fatal (APIError ''Failed to query chat status'' None j None None))"
  by (cases j) (auto simp: judge_def mk_APIError_def split: option.splits json.splits if_splits)

subsection \<open>A final response ends the run\<close>

lemma final_is_last:
  assumes "Inr fj \<in> snd ` set (received (poll_loop t m c s r w))"
      and "judge m r0 fj = Final a"
  shows "chunks (poll_loop t m c s r w) = (if truthy a then [a] else []) \<and>
         ending (poll_loop t m c s r w) = Returned"
  using assms
proof (induction t m c s r w rule: poll_loop.induct)
  case (1 t m c s r w)
  show ?case
  proof (cases "now w - s < real_of_int t")
    case False
    with "1.prems" show ?thesis by (simp add: poll_loop_timed_out)
  next
    case guard: True
    show ?thesis
    proof (cases "http_call w")
      case None
      with guard "1.prems" show ?thesis by (simp add: poll_loop_unscripted)
    next
      case (Some a')
      obtain res w1 where a': "a' = (res, w1)" by (cases a')
      show ?thesis
      proof (cases res)
        case (Inl e)
        with guard Some a' "1.prems" show ?thesis by (simp add: poll_loop_transport_error)
      next
        case (Inr j)
        note call = Some[unfolded a' Inr]
        show ?thesis
        proof (cases "judge m r j")
          case (Fatal e)
          with guard call "1.prems" judge_Final_any[OF "1.prems"(2), of m r]
          show ?thesis by (auto simp: poll_loop_fatal)
        next
          case (Final b)
          with guard call "1.prems" judge_Final_any[OF "1.prems"(2), of m r]
          show ?thesis by (auto simp: poll_loop_final)
        next
          case (Again r')
          note unf = poll_loop_again[OF guard call Again, of c]
          have "fj \<noteq> j"
            using Again judge_Final_any[OF "1.prems"(2), of m r] by auto
          with "1.prems"(1) unf
          have "Inr fj \<in> snd ` set (received (poll_loop t m c s r' (slept 1 w1)))"
            by auto
          from "1.IH"[OF guard Some a'[symmetric] Inr Again this "1.prems"(2)] unf
          show ?thesis by simp
        qed
      qed
    qed
  qed
qed

subsection \<open>Every poll request is answered, except the one the world does not describe\<close>

lemma requests_poll_loop:
  "requests (poll_loop t m c s r w) =
     replicate (length (received (poll_loop t m c s r w)) +
                (if ending (poll_loop t m c s r w) = Unscripted then 1 else 0)) (query_request c)"
proof (induction t m c s r w rule: poll_loop.induct)
  case (1 t m c s r w)
  show ?case
  proof (cases "now w - s < real_of_int t")
    case False
    then show ?thesis by (simp add: poll_loop_timed_out)
  next
    case guard: True
    show ?thesis
    proof (cases "http_call w")
      case None
      with guard show ?thesis by (simp add: poll_loop_unscripted)
    next
      case (Some a')
      obtain res w1 where a': "a' = (res, w1)" by (cases a')
      show ?thesis
      proof (cases res)
        case (Inl e)
        with guard Some a' show ?thesis by (simp add: poll_loop_transport_error)
      next
        case (Inr j)
        note call = Some[unfolded a' Inr]
        show ?thesis
        proof (cases "judge m r j")
          case (Fatal e)
          with guard call show ?thesis by (simp add: poll_loop_fatal)
        next
          case (Final b)
          with guard call show ?thesis by (simp add: poll_loop_final)
        next
          case (Again r')
          from "1.IH"[OF guard Some a'[symmetric] Inr Again]
               poll_loop_again[OF guard call Again, of c]
          show ?thesis by simp
        qed
      qed
    qed
  qed
qed

lemma is_poll_requests [simp]:
  "is_poll (query_request c)" "\<not> is_poll (submit_request kw)"
  by (simp_all add: is_poll_def query_request_def submit_request_def)

lemma chat_completions_Got:
  "submit_chat kw w = Got (conv_id, w2) \<Longrightarrow>
   chat_completions kw w =
     sent (submit_request kw) (poll_loop (timeout kw) (max_retries kw) conv_id (now w2) 0 w2)"
  by (simp add: chat_completions_def)

lemma received_chat_completions:
  "received (chat_completions kw w) =
     (case submit_chat kw w of
        Got (conv_id, w2) \<Rightarrow>
          received (poll_loop (timeout kw) (max_retries kw) conv_id (now w2) 0 w2)
      | Failed e w1 \<Rightarrow> []
      | Silent \<Rightarrow> [])"
  by (simp add: chat_completions_def split: attempt.splits)

section \<open>Transient session-not-found responses, then the final answer\<close>

lemma retries_then_final:
  assumes "script w = nfs @ (df, outf) # rest"
      and "\<forall>e \<in> set nfs. session_not_found (make_request (snd e))"
      and "r + int (length nfs) \<le> m"
      and "final_data (make_request outf) = Some fd"
      and "map_of fd ''user_answer'' = Some (JStr X)" and "X \<noteq> []"
      and "\<forall>i \<le> length nfs.
             now w - s + sum_list (map (\<lambda>e. fst e + 1) (take i nfs)) < real_of_int t"
  shows "chunks (poll_loop t m c s r w) = [JStr X] \<and>
         ending (poll_loop t m c s r w) = Returned \<and>
         requests (poll_loop t m c s r w) = replicate (length nfs + 1) (query_request c)"
  using assms(1,2,3,7)
proof (induction nfs arbitrary: r w)
  case Nil
  then have guard: "now w - s < real_of_int t" by simp
  define w1 where "w1 = w\<lparr>now := now w + df, script := rest\<rparr>"
  from assms(4) obtain fj where fj: "make_request outf = Inr fj"
    by (cases "make_request outf") auto
  have call: "http_call w = Some (Inr fj, w1)"
    using Nil.prems(1) fj by (simp add: http_call_def w1_def)
  have "judge m r fj = Final (JStr X)"
    using judge_final_data[of fj fd m r] assms(4,5) fj by simp
  from poll_loop_final[OF guard call this, of c] assms(6) show ?case by simp
next
  case (Cons e nfs)
  obtain d0 out0 where e: "e = (d0, out0)" by (cases e)
  from Cons.prems(4) have guard: "now w - s < real_of_int t" by force
  define w1 where "w1 = w\<lparr>now := now w + d0, script := nfs @ (df, outf) # rest\<rparr>"
  from Cons.prems(2) e have snf: "session_not_found (make_request out0)" by simp
  then obtain j where j: "make_request out0 = Inr j"
    by (cases "make_request out0") auto
  have call: "http_call w = Some (Inr j, w1)"
    using Cons.prems(1) e j by (simp add: http_call_def w1_def)
  from Cons.prems(3) have "r < m" by simp
  with snf j have again: "judge m r j = Again (r + 1)"
    by (simp add: judge_session_not_found)
  note unf = poll_loop_again[OF guard call again, of c]
  have a: "script (slept 1 w1) = nfs @ (df, outf) # rest"
    by (simp add: slept_def w1_def)
  have b: "\<forall>e \<in> set nfs. session_not_found (make_request (snd e))"
    using Cons.prems(2) by simp
  have c: "r + 1 + int (length nfs) \<le> m"
    using Cons.prems(3) by simp
  have d: "\<forall>i \<le> length nfs.
             now (slept 1 w1) - s + sum_list (map (\<lambda>e. fst e + 1) (take i nfs))
               < real_of_int t"
  proof (intro allI impI)
    fix i assume "i \<le> length nfs"
    then have "Suc i \<le> length (e # nfs)" by simp
    with Cons.prems(4)
    have "now w - s + sum_list (map (\<lambda>e. fst e + 1) (take (Suc i) (e # nfs))) < real_of_int t"
      by blast
    then show "now (slept 1 w1) - s + sum_list (map (\<lambda>e. fst e + 1) (take i nfs))
                 < real_of_int t"
      by (simp add: slept_def w1_def e algebra_simps)
  qed
  from Cons.IH[OF a b c d] unf show ?case by simp
qed

text \<open>
  C1, as stated, fails: the retries must also fit into the timeout.  Here the timeout is
  2 seconds and \<open>max_retries\<close> is 10; the server answers the polls with three
  session-not-found responses and then the final answer, all at once.  Each retry
  sleeps one second, so the guard stops the loop before the third poll: the run raises
  \<open>TimeoutError\<close> after two polls and yields nothing.
\<close>

theorem retries_outlast_timeout_counterexample:
  "max_retries (async_kwargs ''hi'' None None None 2) = 10
   \<and> ending (chat_completions (async_kwargs ''hi'' None None None 2)
        \<lparr> now = 0, script = [(0, submitted ''c1''), (0, not_found_yet), (0, not_found_yet),
                              (0, not_found_yet), (0, finished ''X'')] \<rparr>)
     = Raised (TimeoutError ''Chat timed out'' None
                (Some ''The chat did not complete within 2 seconds.''))
   \<and> chunks (chat_completions (async_kwargs ''hi'' None None None 2)
        \<lparr> now = 0, script = [(0, submitted ''c1''), (0, not_found_yet), (0, not_found_yet),
                              (0, not_found_yet), (0, finished ''X'')] \<rparr>) = []
   \<and> length (filter is_poll (requests (chat_completions (async_kwargs ''hi'' None None None 2)
        \<lparr> now = 0, script = [(0, submitted ''c1''), (0, not_found_yet), (0, not_found_yet),
                              (0, not_found_yet), (0, finished ''X'')] \<rparr>))) = 2"
  by code_simp

text \<open>
  C1, amended.  Take a run of \<open>chat_completions\<close> whose submit succeeds with a conversation
  id, in a world where the next \<open>k\<close> polls return \<^verbatim>\<open>success: false\<close> with
  \<^verbatim>\<open>code: "E0103"\<close>, \<open>k\<close> within \<open>max_retries\<close>, and the poll after them returns
  \<^verbatim>\<open>is_final: true\<close> with a non-empty \<^verbatim>\<open>user_answer\<close> \<open>X\<close>, and where each of these \<open>k + 1\<close>
  polls is issued before \<open>timeout\<close> seconds have passed since the end of the initial
  delay (a retry costs the time of its poll and one second of sleep).  The run yields
  the one chunk \<open>X\<close>, returns normally, and has issued exactly \<open>k + 1\<close> polls.
\<close>

theorem chat_completions_transient_then_final:
  assumes "submit_chat kw w = Got (conv_id, w2)"
      and "script w2 = nfs @ (df, outf) # rest"
      and "\<forall>e \<in> set nfs. session_not_found (make_request (snd e))"
      and "length nfs = k" and "int k \<le> max_retries kw"
      and "final_data (make_request outf) = Some fd"
      and "map_of fd ''user_answer'' = Some (JStr X)" and "X \<noteq> []"
      and "\<forall>i \<le> k. sum_list (map (\<lambda>e. fst e + 1) (take i nfs)) < real_of_int (timeout kw)"
  shows "chunks (chat_completions kw w) = [JStr X] \<and>
         ending (chat_completions kw w) = Returned \<and>
         length (filter is_poll (requests (chat_completions kw w))) = k + 1"
proof -
  let ?loop = "poll_loop (timeout kw) (max_retries kw) conv_id (now w2) 0 w2"
  have run: "chat_completions kw w = sent (submit_request kw) ?loop"
    using assms(1) by (rule chat_completions_Got)
  have budget: "0 + int (length nfs) \<le> max_retries kw"
    using assms(4,5) by simp
  have timing: "\<forall>i \<le> length nfs.
      now w2 - now w2 + sum_list (map (\<lambda>e. fst e + 1) (take i nfs)) < real_of_int (timeout kw)"
    using assms(4,9) by simp
  from retries_then_final[OF assms(2,3) budget assms(6,7,8) timing, of conv_id] assms(4) run
  show ?thesis by simp
qed

theorem chat_completions_transient_then_final_witness:
  "submit_chat (async_kwargs ''hi'' None None None 300)
     \<lparr> now = 0, script = [(0, submitted ''c1''), (1, not_found_yet), (1, not_found_yet),
                           (1, not_found_yet), (1, finished ''X'')] \<rparr>
   = Got (JStr ''c1'',
       \<lparr> now = 2, script = [(1, not_found_yet), (1, not_found_yet), (1, not_found_yet),
                             (1, finished ''X'')] \<rparr>)
   \<and> session_not_found (make_request not_found_yet)
   \<and> int 3 \<le> max_retries (async_kwargs ''hi'' None None None 300)
   \<and> final_data (make_request (finished ''X''))
       = Some [(''is_final'', JBool True), (''user_answer'', JStr ''X'')]
   \<and> (0 + 1 + 1 + 1 + 1 + 1 + 1 :: real) < real_of_int (timeout (async_kwargs ''hi'' None None None 300))
   \<and> chunks (chat_completions (async_kwargs ''hi'' None None None 300)
     \<lparr> now = 0, script = [(0, submitted ''c1''), (1, not_found_yet), (1, not_found_yet),
                           (1, not_found_yet), (1, finished ''X'')] \<rparr>) = [JStr ''X'']
   \<and> ending (chat_completions (async_kwargs ''hi'' None None None 300)
     \<lparr> now = 0, script = [(0, submitted ''c1''), (1, not_found_yet), (1, not_found_yet),
                           (1, not_found_yet), (1, finished ''X'')] \<rparr>) = Returned
   \<and> length (filter is_poll (requests (chat_completions (async_kwargs ''hi'' None None None 300)
     \<lparr> now = 0, script = [(0, submitted ''c1''), (1, not_found_yet), (1, not_found_yet),
                           (1, not_found_yet), (1, finished ''X'')] \<rparr>))) = 3 + 1"
proof -
  let ?kw = "async_kwargs ''hi'' None None None 300"
  let ?nfs = "[(1, not_found_yet), (1, not_found_yet), (1, not_found_yet)]
                :: (real \<times> http_outcome) list"
  let ?fd = "[(''is_final'', JBool True), (''user_answer'', JStr ''X'')]"
  let ?w = "\<lparr> now = 0, script = (0, submitted ''c1'') # ?nfs @ [(1, finished ''X'')] \<rparr>"
  let ?w2 = "\<lparr> now = 2, script = ?nfs @ [(1, finished ''X'')] \<rparr>"
  have submit: "submit_chat ?kw ?w = Got (JStr ''c1'', ?w2)" by code_simp
  have sc: "script ?w2 = ?nfs @ (1, finished ''X'') # []" by simp
  have one: "session_not_found (make_request not_found_yet)" by code_simp
  then have nf: "\<forall>e \<in> set ?nfs. session_not_found (make_request (snd e))" by simp
  have k: "length ?nfs = 3" by simp
  have budget: "int 3 \<le> max_retries ?kw" by (simp add: async_kwargs_def)
  have fd: "final_data (make_request (finished ''X'')) = Some ?fd" by code_simp
  have ans: "map_of ?fd ''user_answer'' = Some (JStr ''X'')" by simp
  have ne: "''X'' \<noteq> []" by simp
  have timing: "\<forall>i \<le> 3. sum_list (map (\<lambda>e. fst e + 1) (take i ?nfs))
                  < real_of_int (timeout ?kw)"
  proof (intro allI impI)
    fix i :: nat assume "i \<le> 3"
    then consider "i = 0" | "i = 1" | "i = 2" | "i = 3" by linarith
    then show "sum_list (map (\<lambda>e. fst e + 1) (take i ?nfs)) < real_of_int (timeout ?kw)"
      by cases (simp_all add: async_kwargs_def)
  qed
  from chat_completions_transient_then_final[OF submit sc nf k budget fd ans ne timing]
       submit one fd
  show ?thesis by (simp add: async_kwargs_def)
qed

section \<open>The retry budget\<close>

lemma budget_exhausted:
  assumes "0 < n" and "m < r + int n"
      and "n = length (filter session_not_found (map snd (received (poll_loop t m c s r w))))"
  shows "\<exists>j. ending (poll_loop t m c s r w) =
               Raised (APIError ''Failed to query chat status'' None j None None) \<and>
             session_not_found (Inr j)"
  using assms
proof (induction t m c s r w arbitrary: n rule: poll_loop.induct)
  case (1 t m c s r w)
  show ?case
  proof (cases "now w - s < real_of_int t")
    case False
    with "1.prems" show ?thesis by (simp add: poll_loop_timed_out)
  next
    case guard: True
    show ?thesis
    proof (cases "http_call w")
      case None
      with guard "1.prems" show ?thesis by (simp add: poll_loop_unscripted)
    next
      case (Some a')
      obtain res w1 where a': "a' = (res, w1)" by (cases a')
      show ?thesis
      proof (cases res)
        case (Inl e)
        with guard Some a' "1.prems" show ?thesis by (simp add: poll_loop_transport_error)
      next
        case (Inr j)
        note call = Some[unfolded a' Inr]
        show ?thesis
        proof (cases "judge m r j")
          case (Fatal e)
          with guard call "1.prems" show ?thesis
            by (auto simp: poll_loop_fatal judge_session_not_found split: if_splits)
        next
          case (Final b)
          with guard call "1.prems" show ?thesis
            by (auto simp: poll_loop_final judge_session_not_found split: if_splits)
        next
          case (Again r')
          note unf = poll_loop_again[OF guard call Again, of c]
          let ?rest = "poll_loop t m c s r' (slept 1 w1)"
          define n' where "n' = length (filter session_not_found (map snd (received ?rest)))"
          have n: "n = (if session_not_found (Inr j) then 1 else 0) + n'"
            using "1.prems"(3) unf by (simp add: n'_def)
          have r': "r' = r \<or> r' = r + 1"
            using judge_Again[OF Again] by auto
          have counted: "r' = r + 1" "r < m" if "session_not_found (Inr j)"
            using that Again by (auto simp: judge_session_not_found split: if_splits)
          have "0 < n'" using n "1.prems"(1,2) counted by (auto split: if_splits)
          moreover have "m < r' + int n'"
            using n r' counted "1.prems"(2) by (auto split: if_splits)
          ultimately have "\<exists>j'. ending ?rest =
                Raised (APIError ''Failed to query chat status'' None j' None None) \<and>
              session_not_found (Inr j')"
            using "1.IH"[OF guard Some a'[symmetric] Inr Again _ _ n'_def] by blast
          then show ?thesis using unf by auto
        qed
      qed
    qed
  qed
qed

text \<open>
  C2.  Take a run of \<open>chat_completions\<close> whose polls produced \<^verbatim>\<open>success: false\<close> with
  \<^verbatim>\<open>code: "E0103"\<close> at least once and more than \<open>max_retries\<close> times.  The run ends with
  the \<open>APIError\<close> of a failed status query, raised on such a response, and not with
  \<open>TimeoutError\<close>.
\<close>

theorem chat_completions_retry_budget_exhausted:
  assumes "n = length (filter session_not_found (map snd (received (chat_completions kw w))))"
      and "0 < n" and "max_retries kw < int n"
  shows "(\<exists>j. ending (chat_completions kw w) =
                Raised (APIError ''Failed to query chat status'' None j None None) \<and>
              session_not_found (Inr j)) \<and>
         (\<forall>e. ending (chat_completions kw w) = Raised e \<longrightarrow>
                class_of e = CAPIError \<and> class_of e \<noteq> CTimeoutError)"
proof -
  from assms(1,2) obtain conv_id w2 where submit: "submit_chat kw w = Got (conv_id, w2)"
    by (cases "submit_chat kw w") (auto simp: received_chat_completions)
  let ?loop = "poll_loop (timeout kw) (max_retries kw) conv_id (now w2) 0 w2"
  have run: "chat_completions kw w = sent (submit_request kw) ?loop"
    using submit by (rule chat_completions_Got)
  have "n = length (filter session_not_found (map snd (received ?loop)))"
    using assms(1) run by simp
  from budget_exhausted[OF assms(2) _ this] assms(3)
  obtain j where "ending ?loop = Raised (APIError ''Failed to query chat status'' None j None None)"
    and "session_not_found (Inr j)" by auto
  with run show ?thesis by auto
qed

theorem chat_completions_retry_budget_exhausted_witness:
  "length (filter session_not_found (map snd (received
     (chat_completions ((async_kwargs ''hi'' None None None 300)\<lparr>max_retries := 1\<rparr>)
       \<lparr> now = 0, script = [(0, submitted ''c1''), (0, not_found_yet), (0, not_found_yet),
                             (0, finished ''X'')] \<rparr>)))) = 2
   \<and> max_retries ((async_kwargs ''hi'' None None None 300)\<lparr>max_retries := 1\<rparr>) < int 2
   \<and> ending (chat_completions ((async_kwargs ''hi'' None None None 300)\<lparr>max_retries := 1\<rparr>)
       \<lparr> now = 0, script = [(0, submitted ''c1''), (0, not_found_yet), (0, not_found_yet),
                             (0, finished ''X'')] \<rparr>)
     = Raised (APIError ''Failed to query chat status'' None
                 (JObj [(''success'', JBool False), (''code'', JStr ''E0103'')]) None None)
   \<and> (\<exists>j. ending (chat_completions ((async_kwargs ''hi'' None None None 300)\<lparr>max_retries := 1\<rparr>)
       \<lparr> now = 0, script = [(0, submitted ''c1''), (0, not_found_yet), (0, not_found_yet),
                             (0, finished ''X'')] \<rparr>)
     = Raised (APIError ''Failed to query chat status'' None j None None) \<and>
       session_not_found (Inr j))
   \<and> class_of (APIError ''Failed to query chat status'' None
                 (JObj [(''success'', JBool False), (''code'', JStr ''E0103'')]) None None)
       \<noteq> CTimeoutError"
proof -
  let ?kw = "(async_kwargs ''hi'' None None None 300)\<lparr>max_retries := 1\<rparr>"
  let ?w = "\<lparr> now = 0, script = [(0, submitted ''c1''), (0, not_found_yet), (0, not_found_yet),
                                 (0, finished ''X'')] \<rparr>"
  have n: "2 = length (filter session_not_found (map snd (received (chat_completions ?kw ?w))))"
    by code_simp
  have pos: "0 < (2::nat)" by simp
  have over: "max_retries ?kw < int 2" by (simp add: async_kwargs_def)
  have "ending (chat_completions ?kw ?w)
     = Raised (APIError ''Failed to query chat status'' None
                 (JObj [(''success'', JBool False), (''code'', JStr ''E0103'')]) None None)"
    by code_simp
  with chat_completions_retry_budget_exhausted[OF n pos over] n[symmetric] over
  show ?thesis by simp
qed

section \<open>A final response without an answer\<close>

text \<open>
  C7.  Take a run of \<open>chat_completions\<close> in which a poll produced a response with
  \<^verbatim>\<open>success: true\<close> and \<^verbatim>\<open>is_final: true\<close> whose \<^verbatim>\<open>user_answer\<close> is absent or the empty
  string.  The run yields no chunk and returns normally; no exception is raised.
\<close>

theorem chat_completions_final_without_answer:
  assumes "p \<in> set (map snd (received (chat_completions kw w)))"
      and "final_data p = Some d"
      and "map_of d ''user_answer'' = None \<or> map_of d ''user_answer'' = Some (JStr [])"
  shows "chunks (chat_completions kw w) = [] \<and> ending (chat_completions kw w) = Returned"
proof -
  from assms(1) obtain conv_id w2 where submit: "submit_chat kw w = Got (conv_id, w2)"
    by (cases "submit_chat kw w") (auto simp: received_chat_completions)
  let ?loop = "poll_loop (timeout kw) (max_retries kw) conv_id (now w2) 0 w2"
  have run: "chat_completions kw w = sent (submit_request kw) ?loop"
    using submit by (rule chat_completions_Got)
  from assms(2) obtain fj where p: "p = Inr fj" by (cases p) auto
  have "judge (max_retries kw) 0 fj =
          Final (case map_of d ''user_answer'' of None \<Rightarrow> JStr [] | Some v \<Rightarrow> v)"
    using judge_final_data[of fj d] assms(2) p by simp
  with assms(3) have verdict: "judge (max_retries kw) 0 fj = Final (JStr [])" by auto
  have "Inr fj \<in> snd ` set (received ?loop)"
    using assms(1) run p by simp
  from final_is_last[OF this verdict] run show ?thesis by simp
qed

theorem chat_completions_final_without_answer_witness:
  "Inr (JObj [(''success'', JBool True), (''data'', JObj [(''is_final'', JBool True)])])
     \<in> set (map snd (received (chat_completions (async_kwargs ''hi'' None None None 300)
          \<lparr> now = 0, script = [(0, submitted ''c1''), (0, still_running),
                                (0, finished_silent)] \<rparr>)))
   \<and> chunks (chat_completions (async_kwargs ''hi'' None None None 300)
          \<lparr> now = 0, script = [(0, submitted ''c1''), (0, still_running),
                                (0, finished_silent)] \<rparr>) = []
   \<and> ending (chat_completions (async_kwargs ''hi'' None None None 300)
          \<lparr> now = 0, script = [(0, submitted ''c1''), (0, still_running),
                                (0, finished_silent)] \<rparr>) = Returned
   \<and> Inr (JObj [(''success'', JBool True),
                 (''data'', JObj [(''is_final'', JBool True), (''user_answer'', JStr [])])])
     \<in> set (map snd (received (chat_completions (async_kwargs ''hi'' None None None 300)
          \<lparr> now = 0, script = [(0, submitted ''c1''), (0, finished [])] \<rparr>)))
   \<and> chunks (chat_completions (async_kwargs ''hi'' None None None 300)
          \<lparr> now = 0, script = [(0, submitted ''c1''), (0, finished [])] \<rparr>) = []
   \<and> ending (chat_completions (async_kwargs ''hi'' None None None 300)
          \<lparr> now = 0, script = [(0, submitted ''c1''), (0, finished [])] \<rparr>) = Returned"
proof -
  let ?kw = "async_kwargs ''hi'' None None None 300"
  let ?w = "\<lparr> now = 0, script = [(0, submitted ''c1''), (0, still_running),
                                 (0, finished_silent)] \<rparr>"
  let ?d = "[(''is_final'', JBool True)]"
  let ?p = "Inr (JObj [(''success'', JBool True), (''data'', JObj ?d)]) :: error + json"
  let ?w' = "\<lparr> now = 0, script = [(0, submitted ''c1''), (0, finished [])] \<rparr>"
  let ?d' = "[(''is_final'', JBool True), (''user_answer'', JStr [])]"
  let ?p' = "Inr (JObj [(''success'', JBool True), (''data'', JObj ?d')]) :: error + json"
  have "map snd (received (chat_completions ?kw ?w)) =
          [Inr (JObj [(''success'', JBool True), (''data'', JObj [(''is_final'', JBool False)])]),
           ?p]"
    by code_simp
  then have seen: "?p \<in> set (map snd (received (chat_completions ?kw ?w)))" by simp
  have fd: "final_data ?p = Some ?d" by simp
  have absent: "map_of ?d ''user_answer'' = None \<or> map_of ?d ''user_answer'' = Some (JStr [])"
    by simp
  have "map snd (received (chat_completions ?kw ?w')) = [?p']"
    by code_simp
  then have seen': "?p' \<in> set (map snd (received (chat_completions ?kw ?w')))" by simp
  have fd': "final_data ?p' = Some ?d'" by simp
  have empty: "map_of ?d' ''user_answer'' = None \<or> map_of ?d' ''user_answer'' = Some (JStr [])"
    by simp
  from chat_completions_final_without_answer[OF seen fd absent]
       chat_completions_final_without_answer[OF seen' fd' empty] seen seen'
  show ?thesis by simp
qed

section \<open>Result aggregation\<close>

lemma fold_append_chunks: "fold (\<lambda>chunk acc. acc @ [chunk]) xs acc = acc @ xs"
  by (induction xs arbitrary: acc) simp_all

lemma py_join_strings: "py_join (map JStr ss) = Inr (concat ss)"
  by (induction ss) simp_all

lemma scenario_run:
  assumes "script w = (d0, o0) # (d1, o1) # (d2, o2) # rest"
      and "make_request o0 =
             Inr (JObj [(''success'', JBool True), (''data'', JObj [(''conv_id'', JStr ''c1'')])])"
      and "make_request o1 =
             Inr (JObj [(''success'', JBool True), (''data'', JObj [(''is_final'', JBool False)])])"
      and "make_request o2 =
             Inr (JObj [(''success'', JBool True),
                        (''data'', JObj [(''is_final'', JBool True),
                                         (''user_answer'', JStr ''Hello!'')])])"
      and "0 \<le> initial_delay kw" and "0 < timeout kw"
      and "d1 + 1 < real_of_int (timeout kw)"
  shows "chunks (chat_completions kw w) = [JStr ''Hello!''] \<and>
         ending (chat_completions kw w) = Returned"
proof -
  let ?pj = "JObj [(''success'', JBool True), (''data'', JObj [(''is_final'', JBool False)])]"
  let ?fj = "JObj [(''success'', JBool True),
                   (''data'', JObj [(''is_final'', JBool True),
                                    (''user_answer'', JStr ''Hello!'')])]"
  define w2 where
    "w2 = w\<lparr>now := now w + d0 + initial_delay kw, script := (d1, o1) # (d2, o2) # rest\<rparr>"
  define w3 where "w3 = w2\<lparr>now := now w2 + d1, script := (d2, o2) # rest\<rparr>"
  define w4 where "w4 = (slept 1 w3)\<lparr>now := now (slept 1 w3) + d2, script := rest\<rparr>"
  have submit: "submit_chat kw w = Got (JStr ''c1'', w2)"
    using assms(1,2,5) by (simp add: submit_chat_def http_call_def py_sleep_def w2_def)
  let ?t = "timeout kw" and ?m = "max_retries kw"
  have g1: "now w2 - now w2 < real_of_int ?t" using assms(6) by simp
  have c1: "http_call w2 = Some (Inr ?pj, w3)"
    using assms(3) by (simp add: http_call_def w2_def w3_def)
  have j1: "judge ?m 0 ?pj = Again 0" by (rule judge_pending) simp
  have g2: "now (slept 1 w3) - now w2 < real_of_int ?t"
    using assms(7) by (simp add: slept_def w3_def)
  have c2: "http_call (slept 1 w3) = Some (Inr ?fj, w4)"
    using assms(4) by (simp add: http_call_def slept_def w3_def w4_def)
  have "final_data (Inr ?fj) = Some [(''is_final'', JBool True), (''user_answer'', JStr ''Hello!'')]"
    by simp
  from judge_final_data[OF this, of ?m 0]
  have j2: "judge ?m 0 ?fj = Final (JStr ''Hello!'')" by simp
  from chat_completions_Got[OF submit]
       poll_loop_again[OF g1 c1 j1, of "JStr ''c1''"]
       poll_loop_final[OF g2 c2 j2, of "JStr ''c1''"]
  show ?thesis by simp
qed

text \<open>
  C8.  \<open>chat_async\<close> drains the generator of \<open>chat_completions\<close> and joins what it yielded:
  for every run of a generator that returns after yielding the text chunks \<open>ss\<close>, however
  many, the result is their concatenation in yield order.  In particular, when the
  submit call returns \<^verbatim>\<open>{success: true, data: {conv_id: "c1"}}\<close>, the first poll returns
  \<^verbatim>\<open>{success: true, data: {is_final: false}}\<close> and the second poll returns
  \<^verbatim>\<open>{success: true, data: {is_final: true, user_answer: "Hello!"}}\<close>, \<open>chat_async\<close> returns
  the string \<^verbatim>\<open>Hello!\<close>.  The scenario is stated twice: on the poll responses a run
  received, and on the responses the server has ready, where both polls must be issued
  before the timeout.
\<close>

theorem chat_async_joins_chunks:
  "chat_async u c a m t w = drain_and_join (chat_completions (async_kwargs u c a m t) w) \<and>
   (ending r = Returned \<and> chunks r = map JStr ss \<longrightarrow> drain_and_join r = Value (concat ss)) \<and>
   (map snd (received (chat_completions (async_kwargs u' c' a' m' t') w')) =
      [Inr (JObj [(''success'', JBool True), (''data'', JObj [(''is_final'', JBool False)])]),
       Inr (JObj [(''success'', JBool True),
                  (''data'', JObj [(''is_final'', JBool True),
                                   (''user_answer'', JStr ''Hello!'')])])] \<longrightarrow>
      chat_async u' c' a' m' t' w' = Value ''Hello!'') \<and>
   (script w'' = (d0, o0) # (d1, o1) # (d2, o2) # rest \<and>
    make_request o0 =
      Inr (JObj [(''success'', JBool True), (''data'', JObj [(''conv_id'', JStr ''c1'')])]) \<and>
    make_request o1 =
      Inr (JObj [(''success'', JBool True), (''data'', JObj [(''is_final'', JBool False)])]) \<and>
    make_request o2 =
      Inr (JObj [(''success'', JBool True),
                 (''data'', JObj [(''is_final'', JBool True),
                                  (''user_answer'', JStr ''Hello!'')])]) \<and>
    0 < t'' \<and> d1 + 1 < real_of_int t'' \<longrightarrow>
      chat_async u'' c'' a'' m'' t'' w'' = Value ''Hello!'')"
proof (intro conjI impI)
  show "chat_async u c a m t w = drain_and_join (chat_completions (async_kwargs u c a m t) w)"
    by (simp add: chat_async_def)
next
  assume "ending r = Returned \<and> chunks r = map JStr ss"
  then show "drain_and_join r = Value (concat ss)"
    by (simp add: drain_and_join_def Let_def fold_append_chunks py_join_strings)
next
  let ?kw = "async_kwargs u' c' a' m' t'"
  let ?d = "[(''is_final'', JBool True), (''user_answer'', JStr ''Hello!'')]"
  let ?fj = "JObj [(''success'', JBool True), (''data'', JObj ?d)]"
  assume scenario: "map snd (received (chat_completions ?kw w')) =
      [Inr (JObj [(''success'', JBool True), (''data'', JObj [(''is_final'', JBool False)])]),
       Inr ?fj]"
  then obtain conv_id w2 where submit: "submit_chat ?kw w' = Got (conv_id, w2)"
    by (cases "submit_chat ?kw w'") (auto simp: received_chat_completions)
  let ?loop = "poll_loop (timeout ?kw) (max_retries ?kw) conv_id (now w2) 0 w2"
  have run: "chat_completions ?kw w' = sent (submit_request ?kw) ?loop"
    using submit by (rule chat_completions_Got)
  have "Inr ?fj \<in> set (map snd (received ?loop))"
    using scenario run by simp
  then have seen: "Inr ?fj \<in> snd ` set (received ?loop)" by simp
  have "final_data (Inr ?fj) = Some ?d" by simp
  from judge_final_data[OF this, of "max_retries ?kw" 0]
  have verdict: "judge (max_retries ?kw) 0 ?fj = Final (JStr ''Hello!'')" by simp
  from final_is_last[OF seen verdict] run
  have "ending (chat_completions ?kw w') = Returned"
       "chunks (chat_completions ?kw w') = [JStr ''Hello!'']" by simp_all
  then show "chat_async u' c' a' m' t' w' = Value ''Hello!''"
    by (simp add: chat_async_def drain_and_join_def Let_def)
next
  let ?kw = "async_kwargs u'' c'' a'' m'' t''"
  assume s: "script w'' = (d0, o0) # (d1, o1) # (d2, o2) # rest \<and>
    make_request o0 =
      Inr (JObj [(''success'', JBool True), (''data'', JObj [(''conv_id'', JStr ''c1'')])]) \<and>
    make_request o1 =
      Inr (JObj [(''success'', JBool True), (''data'', JObj [(''is_final'', JBool False)])]) \<and>
    make_request o2 =
      Inr (JObj [(''success'', JBool True),
                 (''data'', JObj [(''is_final'', JBool True),
                                  (''user_answer'', JStr ''Hello!'')])]) \<and>
    0 < t'' \<and> d1 + 1 < real_of_int t''"
  have "0 \<le> initial_delay ?kw" "timeout ?kw = t''" by (simp_all add: async_kwargs_def)
  with s scenario_run[of w'' d0 o0 d1 o1 d2 o2 rest ?kw]
  have "ending (chat_completions ?kw w'') = Returned"
       "chunks (chat_completions ?kw w'') = [JStr ''Hello!'']" by simp_all
  then show "chat_async u'' c'' a'' m'' t'' w'' = Value ''Hello!''"
    by (simp add: chat_async_def drain_and_join_def Let_def)
qed

theorem chat_async_joins_chunks_witness:
  "drain_and_join \<lparr> chunks = map JStr [''Hel'', ''lo'', ''!''], ending = Returned, requests = [],
                     received = [], finish = \<lparr> now = 0, script = [] \<rparr> \<rparr>
     = Value ''Hello!''
   \<and> map snd (received (chat_completions (async_kwargs ''hi'' None None None 300)
      \<lparr> now = 0, script = [(0, submitted ''c1''), (0, still_running),
                            (0, finished ''Hello!'')] \<rparr>)) =
      [Inr (JObj [(''success'', JBool True), (''data'', JObj [(''is_final'', JBool False)])]),
       Inr (JObj [(''success'', JBool True),
                  (''data'', JObj [(''is_final'', JBool True),
                                   (''user_answer'', JStr ''Hello!'')])])]
   \<and> make_request (submitted ''c1'') =
      Inr (JObj [(''success'', JBool True), (''data'', JObj [(''conv_id'', JStr ''c1'')])])
   \<and> make_request still_running =
      Inr (JObj [(''success'', JBool True), (''data'', JObj [(''is_final'', JBool False)])])
   \<and> make_request (finished ''Hello!'') =
      Inr (JObj [(''success'', JBool True),
                 (''data'', JObj [(''is_final'', JBool True),
                                  (''user_answer'', JStr ''Hello!'')])])
   \<and> (0::int) < 300 \<and> (0::real) + 1 < real_of_int 300
   \<and> chat_async ''hi'' None None None 300
      \<lparr> now = 0, script = [(0, submitted ''c1''), (0, still_running),
                            (0, finished ''Hello!'')] \<rparr> = Value ''Hello!''"
proof -
  let ?kw = "async_kwargs ''hi'' None None None 300"
  let ?w = "\<lparr> now = 0, script = [(0, submitted ''c1''), (0, still_running),
                                 (0, finished ''Hello!'')] \<rparr>"
  let ?r = "\<lparr> chunks = map JStr [''Hel'', ''lo'', ''!''], ending = Returned, requests = [],
             received = [], finish = \<lparr> now = 0, script = [] \<rparr> \<rparr>"
  have rcv: "map snd (received (chat_completions ?kw ?w)) =
      [Inr (JObj [(''success'', JBool True), (''data'', JObj [(''is_final'', JBool False)])]),
       Inr (JObj [(''success'', JBool True),
                  (''data'', JObj [(''is_final'', JBool True),
                                   (''user_answer'', JStr ''Hello!'')])])]" by code_simp
  have o0: "make_request (submitted ''c1'') =
      Inr (JObj [(''success'', JBool True), (''data'', JObj [(''conv_id'', JStr ''c1'')])])"
    by code_simp
  have o1: "make_request still_running =
      Inr (JObj [(''success'', JBool True), (''data'', JObj [(''is_final'', JBool False)])])"
    by code_simp
  have o2: "make_request (finished ''Hello!'') =
      Inr (JObj [(''success'', JBool True),
                 (''data'', JObj [(''is_final'', JBool True),
                                  (''user_answer'', JStr ''Hello!'')])])"
    by code_simp
  note inst = chat_async_joins_chunks[of "''hi''" None None None 300 ?w ?r "[''Hel'', ''lo'', ''!'']"
         "''hi''" None None None 300 ?w
         ?w 0 "submitted ''c1''" 0 still_running 0 "finished ''Hello!''" "[]"
         300 "''hi''" None None None]
  have joined: "drain_and_join ?r = Value ''Hello!''"
    using inst[THEN conjunct2, THEN conjunct1] by simp
  have scenario: "chat_async ''hi'' None None None 300 ?w = Value ''Hello!''"
    using inst[THEN conjunct2, THEN conjunct2, THEN conjunct1] rcv by blast
  have "chat_async ''hi'' None None None 300 ?w = Value ''Hello!''"
    using inst[THEN conjunct2, THEN conjunct2, THEN conjunct2] o0 o1 o2 by simp
  with joined scenario rcv o0 o1 o2 show ?thesis by simp
qed

section \<open>The overall timeout\<close>

lemma times_out:
  assumes "\<forall>(d, out) \<in> set (script w). 0 \<le> d \<and>
             (pending (make_request out) \<or> session_not_found (make_request out))"
      and "r + int (length (filter (\<lambda>e. session_not_found (make_request (snd e))) (script w))) \<le> m"
      and "real_of_int t - (now w - s) \<le> real (length (script w))"
  shows "ending (poll_loop t m c s r w) =
           Raised (TimeoutError ''Chat timed out'' None
             (Some (''The chat did not complete within '' @ str_int t @ '' seconds.''))) \<and>
         chunks (poll_loop t m c s r w) = [] \<and>
         real_of_int t \<le> now (finish (poll_loop t m c s r w)) - s"
  using assms
proof (induction t m c s r w rule: poll_loop.induct)
  case (1 t m c s r w)
  show ?case
  proof (cases "now w - s < real_of_int t")
    case False
    then show ?thesis by (simp add: poll_loop_timed_out)
  next
    case guard: True
    with "1.prems"(3) have "script w \<noteq> []" by auto
    then obtain d out rest where sc: "script w = (d, out) # rest"
      by (cases "script w") auto
    define w1 where "w1 = w\<lparr>now := now w + d, script := rest\<rparr>"
    have call: "http_call w = Some (make_request out, w1)"
      by (simp add: http_call_def sc w1_def)
    from "1.prems"(1) sc have d: "0 \<le> d"
      and shape: "pending (make_request out) \<or> session_not_found (make_request out)"
      by auto
    from shape obtain j where j: "make_request out = Inr j"
      by (cases "make_request out") auto
    have "\<exists>r'. judge m r j = Again r' \<and>
            r' + int (length (filter (\<lambda>e. session_not_found (make_request (snd e))) rest)) \<le> m"
    proof (cases "session_not_found (Inr j)")
      case True
      with "1.prems"(2) sc j show ?thesis by (simp add: judge_session_not_found)
    next
      case False
      with shape j have "pending (Inr j)" by simp
      with "1.prems"(2) sc j False show ?thesis by (simp add: judge_pending)
    qed
    then obtain r' where again: "judge m r j = Again r'"
      and budget: "r' + int (length (filter (\<lambda>e. session_not_found (make_request (snd e))) rest)) \<le> m"
      by blast
    note unf = poll_loop_again[OF guard call[unfolded j] again, of c]
    have a: "\<forall>(d, out) \<in> set (script (slept 1 w1)). 0 \<le> d \<and>
               (pending (make_request out) \<or> session_not_found (make_request out))"
      using "1.prems"(1) sc by (simp add: slept_def w1_def)
    have b: "r' + int (length (filter (\<lambda>e. session_not_found (make_request (snd e)))
                 (script (slept 1 w1)))) \<le> m"
      using budget by (simp add: slept_def w1_def)
    have c: "real_of_int t - (now (slept 1 w1) - s) \<le> real (length (script (slept 1 w1)))"
      using "1.prems"(3) sc d by (simp add: slept_def w1_def)
    from "1.IH"[OF guard call _ j again a b c] unf
    show ?thesis by simp
  qed
qed

lemma submit_chat_clock:
  assumes "submit_chat kw w = Got (conv_id, w2)"
  shows "\<exists>x w1. http_call w = Some (x, w1) \<and> now w2 = now w1 + initial_delay kw"
  using assms
  by (auto simp: submit_chat_def py_sleep_def
           split: option.splits prod.splits sum.splits if_splits)

text \<open>
  C3, as stated, fails: a response with \<^verbatim>\<open>is_final: true\<close> that arrives after the timeout
  has elapsed is still accepted when its poll was issued before.  Here the timeout is 5
  seconds, the clock is started at 2 (the end of the initial delay) and the only poll
  takes 10 seconds, so no final response arrives before 5 seconds have elapsed; the run
  returns the answer and raises nothing.
\<close>

theorem timeout_late_final_counterexample:
  "submit_chat (async_kwargs ''hi'' None None None 5)
     \<lparr> now = 0, script = [(0, submitted ''c1''), (10, finished ''late'')] \<rparr>
     = Got (JStr ''c1'', \<lparr> now = 2, script = [(10, finished ''late'')] \<rparr>)
   \<and> received (chat_completions (async_kwargs ''hi'' None None None 5)
        \<lparr> now = 0, script = [(0, submitted ''c1''), (10, finished ''late'')] \<rparr>)
     = [(12, Inr (JObj [(''success'', JBool True),
                        (''data'', JObj [(''is_final'', JBool True),
                                         (''user_answer'', JStr ''late'')])]))]
   \<and> \<not> (12 - 2 < real_of_int (timeout (async_kwargs ''hi'' None None None 5)))
   \<and> ending (chat_completions (async_kwargs ''hi'' None None None 5)
        \<lparr> now = 0, script = [(0, submitted ''c1''), (10, finished ''late'')] \<rparr>) = Returned
   \<and> chunks (chat_completions (async_kwargs ''hi'' None None None 5)
        \<lparr> now = 0, script = [(0, submitted ''c1''), (10, finished ''late'')] \<rparr>)
     = [JStr ''late'']"
  by code_simp

text \<open>
  C3, amended.  Take a run of \<open>chat_completions\<close> whose submit succeeded, in a world where
  every poll takes no negative time and returns either a successful response that is
  not final or a session-not-found response, the latter at most \<open>max_retries\<close> times, and
  which describes at least \<open>timeout\<close> polls.  The run ends with \<open>TimeoutError\<close>, with the
  message \<^verbatim>\<open>Chat timed out\<close> and a suggestion that names the configured timeout; this is
  not an \<open>APIError\<close>; no chunk was yielded; and it is raised at a check of the loop guard
  at which at least \<open>timeout\<close> seconds have passed on the clock read after the initial
  delay, which is the time the submit call returned plus \<open>initial_delay\<close>.
\<close>

theorem chat_completions_times_out:
  assumes "submit_chat kw w = Got (conv_id, w2)"
      and "\<forall>(d, out) \<in> set (script w2). 0 \<le> d \<and>
             (pending (make_request out) \<or> session_not_found (make_request out))"
      and "int (length (filter (\<lambda>e. session_not_found (make_request (snd e))) (script w2)))
             \<le> max_retries kw"
      and "real_of_int (timeout kw) \<le> real (length (script w2))"
  shows "ending (chat_completions kw w) =
           Raised (TimeoutError ''Chat timed out'' None
             (Some (''The chat did not complete within '' @ str_int (timeout kw) @ '' seconds.'')))
         \<and> (\<forall>e. ending (chat_completions kw w) = Raised e \<longrightarrow>
                  class_of e = CTimeoutError \<and> class_of e \<noteq> CAPIError)
         \<and> chunks (chat_completions kw w) = []
         \<and> real_of_int (timeout kw) \<le> now (finish (chat_completions kw w)) - now w2
         \<and> (\<exists>x w1. http_call w = Some (x, w1) \<and> now w2 = now w1 + initial_delay kw)"
proof -
  let ?loop = "poll_loop (timeout kw) (max_retries kw) conv_id (now w2) 0 w2"
  have run: "chat_completions kw w = sent (submit_request kw) ?loop"
    using assms(1) by (rule chat_completions_Got)
  have "0 + int (length (filter (\<lambda>e. session_not_found (make_request (snd e))) (script w2)))
          \<le> max_retries kw"
    using assms(3) by simp
  moreover have "real_of_int (timeout kw) - (now w2 - now w2) \<le> real (length (script w2))"
    using assms(4) by simp
  ultimately have
    "ending ?loop =
       Raised (TimeoutError ''Chat timed out'' None
         (Some (''The chat did not complete within '' @ str_int (timeout kw) @ '' seconds.''))) \<and>
     chunks ?loop = [] \<and> real_of_int (timeout kw) \<le> now (finish ?loop) - now w2"
    using assms(2) by (rule times_out[rotated])
  with run submit_chat_clock[OF assms(1)] show ?thesis by simp
qed

theorem chat_completions_times_out_witness:
  "submit_chat (async_kwargs ''hi'' None None None 2)
     \<lparr> now = 0, script = [(0, submitted ''c1''), (0, still_running), (0, not_found_yet)] \<rparr>
     = Got (JStr ''c1'', \<lparr> now = 2, script = [(0, still_running), (0, not_found_yet)] \<rparr>)
   \<and> pending (make_request still_running)
   \<and> session_not_found (make_request not_found_yet)
   \<and> real_of_int (timeout (async_kwargs ''hi'' None None None 2))
        \<le> real (length [(0::real, still_running), (0, not_found_yet)])
   \<and> ending (chat_completions (async_kwargs ''hi'' None None None 2)
        \<lparr> now = 0, script = [(0, submitted ''c1''), (0, still_running), (0, not_found_yet)] \<rparr>)
     = Raised (TimeoutError ''Chat timed out'' None
                (Some ''The chat did not complete within 2 seconds.''))
   \<and> now (finish (chat_completions (async_kwargs ''hi'' None None None 2)
        \<lparr> now = 0, script = [(0, submitted ''c1''), (0, still_running), (0, not_found_yet)] \<rparr>))
     = 4"
proof -
  let ?kw = "async_kwargs ''hi'' None None None 2"
  let ?polls = "[(0, still_running), (0, not_found_yet)] :: (real \<times> http_outcome) list"
  let ?w = "\<lparr> now = 0, script = (0, submitted ''c1'') # ?polls \<rparr>"
  let ?w2 = "\<lparr> now = 2, script = ?polls \<rparr>"
  have submit: "submit_chat ?kw ?w = Got (JStr ''c1'', ?w2)" by code_simp
  have p: "pending (make_request still_running)" by code_simp
  have n: "session_not_found (make_request not_found_yet)" by code_simp
  have np: "\<not> session_not_found (make_request still_running)" by code_simp
  have shapes: "\<forall>(d, out) \<in> set (script ?w2). 0 \<le> d \<and>
             (pending (make_request out) \<or> session_not_found (make_request out))"
    using p n by simp
  have budget: "int (length (filter (\<lambda>e. session_not_found (make_request (snd e))) (script ?w2)))
             \<le> max_retries ?kw"
    using n np by (simp add: async_kwargs_def)
  have enough: "real_of_int (timeout ?kw) \<le> real (length (script ?w2))"
    by (simp add: async_kwargs_def)
  have digits: "str_int 2 = ''2''" by code_simp
  have clock: "now (finish (chat_completions ?kw ?w)) = 4" by code_simp
  from chat_completions_times_out[OF submit shapes budget enough] submit p n enough digits clock
  show ?thesis by (simp add: async_kwargs_def)
qed

section \<open>Transport failures\<close>

text \<open>
  C4, as stated, fails: the three failures are not of distinct types.  A connection
  failure and a 200 response whose body is not JSON both raise \<open>APIError\<close>, the one class
  \<^verbatim>\<open>_make_request\<close> raises; \<^verbatim>\<open>exceptions.py\<close> declares no class for network, protocol or
  decoding errors.
\<close>

theorem make_request_one_class_counterexample:
  "raised_class (make_request (RequestError ''connection refused'')) = Some CAPIError
   \<and> raised_class (make_request (Response \<lparr> status_code = 200, body = ''<html>'',
                                           decoded = JSONDecodeError, status_text = [] \<rparr>)) = Some CAPIError
   \<and> raised_class (make_request (Response \<lparr> status_code = 404, body = ''gone'',
                                           decoded = JSONDecodeError, status_text = ''404'' \<rparr>))
       = Some CAPIError
   \<and> raised_class (make_request (RequestError ''connection refused''))
       = raised_class (make_request (Response \<lparr> status_code = 200, body = ''<html>'',
                                               decoded = JSONDecodeError, status_text = [] \<rparr>))"
  by (simp add: raised_class_def make_request_def mk_APIError_def is_success_def)

text \<open>
  C4, amended.  The three failures are raised as \<open>APIError\<close> and differ in its fields.
  A connection-level failure has the message \<^verbatim>\<open>Network error\<close> and no status code.  A
  status outside 200..299 has the status code in the message and in \<open>status_code\<close>, and
  as response the decoded JSON body or, when the body does not decode, the raw text
  under the key \<^verbatim>\<open>text\<close> (an empty dictionary when that value is falsy).  A response with
  a status in 200..299 and a non-empty body that is text but not JSON has the message
  \<^verbatim>\<open>Server returned invalid JSON response\<close> and no status code.  Every exception of a
  request is an \<open>APIError\<close>, the one case apart of a response with a status in 200..299
  whose bytes are not text, about which nothing is said here.
\<close>

theorem make_request_raises_APIError:
  "make_request (RequestError s) =
     Inl (APIError ''Network error'' None (JObj []) (Some s)
            (Some ''Check your network connection and try again'')) \<and>
   (\<not> is_success r1 \<longrightarrow>
      make_request (Response r1) =
        Inl (APIError (''API request failed: '' @ str_int (status_code r1))
               (Some (status_code r1))
               (let parsed = (case decoded r1 of
                                Decoded j \<Rightarrow> j
                              | JSONDecodeError \<Rightarrow> JObj [(''text'', JStr (body r1))]
                              | UnicodeDecodeError \<Rightarrow> JObj [(''text'', JStr (body r1))])
                in if truthy parsed then parsed else JObj [])
               (Some (status_text r1))
               (Some ''Check your request parameters and try again''))) \<and>
   (is_success r2 \<and> body r2 \<noteq> [] \<and> decoded r2 = JSONDecodeError \<longrightarrow>
      make_request (Response r2) =
        Inl (APIError ''Server returned invalid JSON response'' None (JObj [])
               (Some (''Response content: '' @ take 200 (body r2)))
               (Some ''Please check if the server is running properly''))) \<and>
   (make_request out = Inl e \<longrightarrow>
      class_of e = CAPIError \<or>
      (\<exists>r. out = Response r \<and> is_success r \<and> body r \<noteq> [] \<and>
           decoded r = UnicodeDecodeError))"
proof (intro conjI impI)
  show "make_request (RequestError s) =
     Inl (APIError ''Network error'' None (JObj []) (Some s)
            (Some ''Check your network connection and try again''))"
    by (simp add: make_request_def mk_APIError_def)
next
  assume "\<not> is_success r1"
  then show "make_request (Response r1) =
        Inl (APIError (''API request failed: '' @ str_int (status_code r1))
               (Some (status_code r1))
               (let parsed = (case decoded r1 of
                                Decoded j \<Rightarrow> j
                              | JSONDecodeError \<Rightarrow> JObj [(''text'', JStr (body r1))]
                              | UnicodeDecodeError \<Rightarrow> JObj [(''text'', JStr (body r1))])
                in if truthy parsed then parsed else JObj [])
               (Some (status_text r1))
               (Some ''Check your request parameters and try again''))"
    by (simp add: make_request_def mk_APIError_def safe_parse_json_def Let_def)
next
  assume "is_success r2 \<and> body r2 \<noteq> [] \<and> decoded r2 = JSONDecodeError"
  then show "make_request (Response r2) =
        Inl (APIError ''Server returned invalid JSON response'' None (JObj [])
               (Some (''Response content: '' @ take 200 (body r2)))
               (Some ''Please check if the server is running properly''))"
    by (simp add: make_request_def mk_APIError_def)
next
  assume "make_request out = Inl e"
  then show "class_of e = CAPIError \<or>
      (\<exists>r. out = Response r \<and> is_success r \<and> body r \<noteq> [] \<and>
           decoded r = UnicodeDecodeError)"
    by (auto simp: make_request_def mk_APIError_def
             split: http_outcome.splits if_splits decoding.splits)
qed

theorem make_request_raises_APIError_witness:
  "\<not> is_success \<lparr> status_code = 404, body = ''gone'', decoded = JSONDecodeError, status_text = ''404'' \<rparr>
   \<and> make_request (Response \<lparr> status_code = 404, body = ''gone'', decoded = JSONDecodeError,
                               status_text = ''404'' \<rparr>) =
       Inl (APIError ''API request failed: 404'' (Some 404) (JObj [(''text'', JStr ''gone'')])
              (Some ''404'') (Some ''Check your request parameters and try again''))
   \<and> is_success \<lparr> status_code = 200, body = ''<html>'', decoded = JSONDecodeError, status_text = [] \<rparr>
   \<and> make_request (Response \<lparr> status_code = 200, body = ''<html>'', decoded = JSONDecodeError,
                               status_text = [] \<rparr>) =
       Inl (APIError ''Server returned invalid JSON response'' None (JObj [])
              (Some ''Response content: <html>'')
              (Some ''Please check if the server is running properly''))
   \<and> make_request (RequestError ''refused'') =
       Inl (APIError ''Network error'' None (JObj []) (Some ''refused'')
              (Some ''Check your network connection and try again''))
   \<and> class_of (APIError ''Network error'' None (JObj []) (Some ''refused'')
                 (Some ''Check your network connection and try again'')) = CAPIError"
proof -
  let ?r1 = "\<lparr> status_code = 404, body = ''gone'', decoded = JSONDecodeError, status_text = ''404'' \<rparr>"
  let ?r2 = "\<lparr> status_code = 200, body = ''<html>'', decoded = JSONDecodeError, status_text = [] \<rparr>"
  have a: "\<not> is_success ?r1" by (simp add: is_success_def)
  have b: "is_success ?r2 \<and> body ?r2 \<noteq> [] \<and> decoded ?r2 = JSONDecodeError" by (simp add: is_success_def)
  have digits: "str_int 404 = ''404''" by code_simp
  from make_request_raises_APIError[of "''refused''" ?r1 ?r2 "RequestError ''refused''"
         "APIError ''Network error'' None (JObj []) (Some ''refused'')
            (Some ''Check your network connection and try again'')"]
       a b digits
  show ?thesis by (simp add: Let_def)
qed

section \<open>Responses that report failure\<close>

lemma failure_is_last:
  assumes "map snd (received (poll_loop t m c s r w)) = pre @ Inr (JObj kvs) # post"
      and "map_of kvs ''success'' = Some (JBool False)"
      and "map_of kvs ''code'' \<noteq> Some (JStr ''E0103'') \<or>
           m \<le> r + int (length (filter session_not_found pre))"
  shows "ending (poll_loop t m c s r w) =
           Raised (APIError ''Failed to query chat status'' None (JObj kvs) None None) \<and>
         post = []"
  using assms
proof (induction t m c s r w arbitrary: pre rule: poll_loop.induct)
  case (1 t m c s r w)
  from "1.prems"(2) have ne: "kvs \<noteq> []" by auto
  show ?case
  proof (cases "now w - s < real_of_int t")
    case False
    with "1.prems" show ?thesis by (simp add: poll_loop_timed_out)
  next
    case guard: True
    show ?thesis
    proof (cases "http_call w")
      case None
      with guard "1.prems" show ?thesis by (simp add: poll_loop_unscripted)
    next
      case (Some a')
      obtain res w1 where a': "a' = (res, w1)" by (cases a')
      have single: "pre = [] \<and> post = [] \<and> x = Inr (JObj kvs)"
        if "[x] = pre @ Inr (JObj kvs) # post" for x :: "error + json"
        using that by (cases pre) auto
      show ?thesis
      proof (cases res)
        case (Inl e)
        with guard Some a' "1.prems"(1) single[of "Inl e"] show ?thesis
          by (simp add: poll_loop_transport_error)
      next
        case (Inr j)
        note call = Some[unfolded a' Inr]
        have fatal_here: "judge m r (JObj kvs) =
            Fatal (APIError ''Failed to query chat status'' None (JObj kvs) None None)"
          if "pre = []"
          using that "1.prems"(2,3) ne
          by (auto simp: judge_def mk_APIError_def split: option.splits)
        show ?thesis
        proof (cases "judge m r j")
          case (Fatal e)
          note unf = poll_loop_fatal[OF guard call Fatal, of c]
          then have "[Inr j] = pre @ Inr (JObj kvs) # post"
            using "1.prems"(1) by simp
          from single[OF this] have "pre = []" "post = []" "j = JObj kvs" by simp_all
          with fatal_here Fatal unf show ?thesis by simp
        next
          case (Final b)
          note unf = poll_loop_final[OF guard call Final, of c]
          then have "[Inr j] = pre @ Inr (JObj kvs) # post"
            using "1.prems"(1) by (simp split: if_splits)
          from single[OF this] have "pre = []" "j = JObj kvs" by simp_all
          with fatal_here Final show ?thesis by simp
        next
          case (Again r')
          note unf = poll_loop_again[OF guard call Again, of c]
          let ?rest = "poll_loop t m c s r' (slept 1 w1)"
          from "1.prems"(1) unf
          have rcv: "Inr j # map snd (received ?rest) = pre @ Inr (JObj kvs) # post" by simp
          have "pre \<noteq> []"
          proof
            assume "pre = []"
            with rcv have "j = JObj kvs" by simp
            with fatal_here[OF \<open>pre = []\<close>] Again show False by simp
          qed
          then obtain pre' where pre: "pre = Inr j # pre'"
            using rcv by (cases pre) auto
          with rcv have rcv': "map snd (received ?rest) = pre' @ Inr (JObj kvs) # post" by simp
          have counter: "r' = r + 1" if "session_not_found (Inr j)"
            using that Again by (auto simp: judge_session_not_found split: if_splits)
          have "r \<le> r'" using judge_Again[OF Again] by auto
          with "1.prems"(3) pre counter
          have budget: "map_of kvs ''code'' \<noteq> Some (JStr ''E0103'') \<or>
                        m \<le> r' + int (length (filter session_not_found pre'))"
            by (auto split: if_splits)
          from "1.IH"[OF guard Some a'[symmetric] Inr Again rcv' "1.prems"(2) budget] unf
          show ?thesis by simp
        qed
      qed
    qed
  qed
qed

text \<open>
  C5, as stated, fails: \<open>list_conversations\<close> does not raise on a response with
  \<^verbatim>\<open>success: false\<close>; it returns the empty list.
\<close>

theorem list_conversations_failure_counterexample:
  "make_request (ok_response (JObj [(''success'', JBool False)]))
     = Inr (JObj [(''success'', JBool False)])
   \<and> list_conversations (Inr :: json \<Rightarrow> error + json) None 1 20
       \<lparr> now = 0, script = [(0, ok_response (JObj [(''success'', JBool False)]))] \<rparr>
     = Value []"
  by code_simp

text \<open>
  C5, amended.  On a response with \<^verbatim>\<open>success: false\<close>: \<open>chat_completions\<close> raises \<open>APIError\<close>
  when it is the answer to the submit, and when it is the answer to a poll unless its
  code is \<^verbatim>\<open>E0103\<close> and the retry budget is not used up; \<open>delete_conversation\<close> and
  \<open>stop_chat\<close> return the flag \<^verbatim>\<open>False\<close> and raise nothing; \<open>list_conversations\<close> and
  \<open>list_models\<close> return the empty list and raise nothing.  The poll clause is stated
  three times: of what the loop makes of such a response; of a run that received it,
  whatever it received before, where it is the last response of the run; and of the
  first poll of a run, on the response the server has ready.
\<close>

theorem failure_response_by_operation:
  assumes "http_call w = Some (Inr (JObj kvs), w1)"
      and "map_of kvs ''success'' = Some (JBool False)"
  shows "ending (chat_completions kw w) =
           Raised (APIError ''Failed to submit chat'' None (JObj kvs) None None)
         \<and> (map_of kvs ''code'' \<noteq> Some (JStr ''E0103'') \<or> m \<le> r \<longrightarrow>
              judge m r (JObj kvs) =
                Fatal (APIError ''Failed to query chat status'' None (JObj kvs) None None))
         \<and> delete_conversation cu w = Value (JBool False)
         \<and> stop_chat sid w = Value (JBool False)
         \<and> list_conversations new_conversation un page page_size w = Value []
         \<and> list_models new_model w = Value []
         \<and> (map snd (received (chat_completions kw' w')) = pre @ Inr (JObj kvs') # post \<and>
              map_of kvs' ''success'' = Some (JBool False) \<and>
              (map_of kvs' ''code'' \<noteq> Some (JStr ''E0103'') \<or>
               max_retries kw' \<le> int (length (filter session_not_found pre))) \<longrightarrow>
                ending (chat_completions kw' w') =
                  Raised (APIError ''Failed to query chat status'' None (JObj kvs') None None) \<and>
                post = [])
         \<and> (submit_chat kw'' w'' = Got (conv_id, w2) \<and> script w2 = (d, out) # rest \<and>
              make_request out = Inr (JObj kvs'') \<and>
              map_of kvs'' ''success'' = Some (JBool False) \<and>
              (map_of kvs'' ''code'' \<noteq> Some (JStr ''E0103'') \<or> max_retries kw'' \<le> 0) \<and>
              0 < timeout kw'' \<longrightarrow>
                ending (chat_completions kw'' w'') =
                  Raised (APIError ''Failed to query chat status'' None (JObj kvs'') None None))"
proof -
  from assms(2) have ne: "kvs \<noteq> []" by auto
  have "submit_chat kw w =
          Failed (APIError ''Failed to submit chat'' None (JObj kvs) None None) w1"
    using assms ne by (simp add: submit_chat_def mk_APIError_def)
  then have a: "ending (chat_completions kw w) =
           Raised (APIError ''Failed to submit chat'' None (JObj kvs) None None)"
    by (simp add: chat_completions_def)
  have b: "map_of kvs ''code'' \<noteq> Some (JStr ''E0103'') \<or> m \<le> r \<longrightarrow>
              judge m r (JObj kvs) =
                Fatal (APIError ''Failed to query chat status'' None (JObj kvs) None None)"
    using assms(2) ne by (auto simp: judge_def mk_APIError_def split: option.splits)
  have c: "success_flag w = Value (JBool False)"
    using assms by (simp add: success_flag_def)
  have d: "success_and_data (JObj kvs) = Inr None"
    using assms(2) by (simp add: success_and_data_def)
  have e: "ending (chat_completions kw' w') =
             Raised (APIError ''Failed to query chat status'' None (JObj kvs') None None) \<and>
           post = []"
    if h: "map snd (received (chat_completions kw' w')) = pre @ Inr (JObj kvs') # post \<and>
           map_of kvs' ''success'' = Some (JBool False) \<and>
           (map_of kvs' ''code'' \<noteq> Some (JStr ''E0103'') \<or>
            max_retries kw' \<le> int (length (filter session_not_found pre)))"
  proof -
    from h obtain c' w2' where submit: "submit_chat kw' w' = Got (c', w2')"
      by (cases "submit_chat kw' w'") (auto simp: received_chat_completions)
    let ?loop = "poll_loop (timeout kw') (max_retries kw') c' (now w2') 0 w2'"
    have run: "chat_completions kw' w' = sent (submit_request kw') ?loop"
      using submit by (rule chat_completions_Got)
    have "map snd (received ?loop) = pre @ Inr (JObj kvs') # post"
      using h run by simp
    moreover have "map_of kvs' ''code'' \<noteq> Some (JStr ''E0103'') \<or>
            max_retries kw' \<le> 0 + int (length (filter session_not_found pre))"
      using h by simp
    ultimately show ?thesis
      using failure_is_last[of "timeout kw'" "max_retries kw'" c' "now w2'" 0 w2' pre kvs' post]
            h run by simp
  qed
  have f: "ending (chat_completions kw'' w'') =
             Raised (APIError ''Failed to query chat status'' None (JObj kvs'') None None)"
    if h: "submit_chat kw'' w'' = Got (conv_id, w2) \<and> script w2 = (d, out) # rest \<and>
           make_request out = Inr (JObj kvs'') \<and>
           map_of kvs'' ''success'' = Some (JBool False) \<and>
           (map_of kvs'' ''code'' \<noteq> Some (JStr ''E0103'') \<or> max_retries kw'' \<le> 0) \<and>
           0 < timeout kw''"
  proof -
    define w3 where "w3 = w2\<lparr>now := now w2 + d, script := rest\<rparr>"
    from h have ne'': "kvs'' \<noteq> []" by auto
    have guard: "now w2 - now w2 < real_of_int (timeout kw'')" using h by simp
    have call: "http_call w2 = Some (Inr (JObj kvs''), w3)"
      using h by (simp add: http_call_def w3_def)
    have "judge (max_retries kw'') 0 (JObj kvs'') =
            Fatal (APIError ''Failed to query chat status'' None (JObj kvs'') None None)"
      using h ne'' by (auto simp: judge_def mk_APIError_def split: option.splits)
    from poll_loop_fatal[OF guard call this, of conv_id] h show ?thesis
      by (simp add: chat_completions_Got)
  qed
  show ?thesis
    using a b c d e f assms(1)
    by (simp add: delete_conversation_def stop_chat_def list_conversations_def list_models_def)
qed

theorem failure_response_by_operation_witness:
  "http_call \<lparr> now = 0, script = [(0, ok_response (JObj [(''success'', JBool False)]))] \<rparr>
     = Some (Inr (JObj [(''success'', JBool False)]), \<lparr> now = 0, script = [] \<rparr>)
   \<and> map_of [(''success'', JBool False)] ''success'' = Some (JBool False)
   \<and> ending (chat_completions (async_kwargs ''hi'' None None None 300)
        \<lparr> now = 0, script = [(0, ok_response (JObj [(''success'', JBool False)]))] \<rparr>)
       = Raised (APIError ''Failed to submit chat'' None (JObj [(''success'', JBool False)])
                   None None)
   \<and> judge 10 0 (JObj [(''success'', JBool False)])
       = Fatal (APIError ''Failed to query chat status'' None (JObj [(''success'', JBool False)])
                  None None)
   \<and> delete_conversation ''c1''
        \<lparr> now = 0, script = [(0, ok_response (JObj [(''success'', JBool False)]))] \<rparr>
       = Value (JBool False)
   \<and> stop_chat ''s1''
        \<lparr> now = 0, script = [(0, ok_response (JObj [(''success'', JBool False)]))] \<rparr>
       = Value (JBool False)
   \<and> list_conversations (Inr :: json \<Rightarrow> error + json) None 1 20
        \<lparr> now = 0, script = [(0, ok_response (JObj [(''success'', JBool False)]))] \<rparr>
       = Value []
   \<and> list_models (Inr :: json \<Rightarrow> error + json)
        \<lparr> now = 0, script = [(0, ok_response (JObj [(''success'', JBool False)]))] \<rparr>
       = Value []
   \<and> map snd (received (chat_completions (async_kwargs ''hi'' None None None 300)
        \<lparr> now = 0, script = [(0, submitted ''c1''), (0, still_running), (0, not_found_yet),
            (0, ok_response (JObj [(''success'', JBool False), (''code'', JStr ''E0500'')])),
            (0, finished ''X'')] \<rparr>))
       = [Inr (JObj [(''success'', JBool True), (''data'', JObj [(''is_final'', JBool False)])]),
          Inr (JObj [(''success'', JBool False), (''code'', JStr ''E0103'')])]
         @ Inr (JObj [(''success'', JBool False), (''code'', JStr ''E0500'')]) # []
   \<and> ending (chat_completions (async_kwargs ''hi'' None None None 300)
        \<lparr> now = 0, script = [(0, submitted ''c1''), (0, still_running), (0, not_found_yet),
            (0, ok_response (JObj [(''success'', JBool False), (''code'', JStr ''E0500'')])),
            (0, finished ''X'')] \<rparr>)
       = Raised (APIError ''Failed to query chat status'' None
                   (JObj [(''success'', JBool False), (''code'', JStr ''E0500'')]) None None)
   \<and> submit_chat (async_kwargs ''hi'' None None None 300)
        \<lparr> now = 0, script = [(0, submitted ''c1''),
            (0, ok_response (JObj [(''success'', JBool False), (''code'', JStr ''E0500'')])),
            (0, finished ''X'')] \<rparr>
       = Got (JStr ''c1'', \<lparr> now = 2, script =
           [(0, ok_response (JObj [(''success'', JBool False), (''code'', JStr ''E0500'')])),
            (0, finished ''X'')] \<rparr>)
   \<and> ending (chat_completions (async_kwargs ''hi'' None None None 300)
        \<lparr> now = 0, script = [(0, submitted ''c1''),
            (0, ok_response (JObj [(''success'', JBool False), (''code'', JStr ''E0500'')])),
            (0, finished ''X'')] \<rparr>)
       = Raised (APIError ''Failed to query chat status'' None
                   (JObj [(''success'', JBool False), (''code'', JStr ''E0500'')]) None None)"
proof -
  let ?w = "\<lparr> now = 0, script = [(0, ok_response (JObj [(''success'', JBool False)]))] \<rparr>"
  have call: "http_call ?w
     = Some (Inr (JObj [(''success'', JBool False)]), \<lparr> now = 0, script = [] \<rparr>)"
    by code_simp
  have flag: "map_of [(''success'', JBool False)] ''success'' = Some (JBool False)"
    by simp
  let ?kw = "async_kwargs ''hi'' None None None 300"
  let ?bad = "ok_response (JObj [(''success'', JBool False), (''code'', JStr ''E0500'')])"
  let ?kvs = "[(''success'', JBool False), (''code'', JStr ''E0500'')]"
  let ?pre = "[Inr (JObj [(''success'', JBool True), (''data'', JObj [(''is_final'', JBool False)])]),
               Inr (JObj [(''success'', JBool False), (''code'', JStr ''E0103'')])]
              :: (error + json) list"
  let ?w' = "\<lparr> now = 0, script = [(0, submitted ''c1''), (0, still_running), (0, not_found_yet),
                                  (0, ?bad), (0, finished ''X'')] \<rparr>"
  let ?w'' = "\<lparr> now = 0, script = [(0, submitted ''c1''), (0, ?bad), (0, finished ''X'')] \<rparr>"
  let ?w2 = "\<lparr> now = 2, script = [(0, ?bad), (0, finished ''X'')] \<rparr>"
  note inst = failure_response_by_operation[OF call flag,
         of ?kw 10 0 "''c1''" "''s1''"
            "Inr :: json \<Rightarrow> error + json" None 1 20 "Inr :: json \<Rightarrow> error + json"
            ?kw ?w' ?pre ?kvs "[]" ?kw ?w'' "JStr ''c1''" ?w2 0 ?bad "[(0, finished ''X'')]" ?kvs]
  have rcv: "map snd (received (chat_completions ?kw ?w')) = ?pre @ Inr (JObj ?kvs) # []"
    by code_simp
  have submit: "submit_chat ?kw ?w'' = Got (JStr ''c1'', ?w2)" by code_simp
  have resp: "make_request ?bad = Inr (JObj ?kvs)" by code_simp
  have t: "0 < timeout ?kw" by (simp add: async_kwargs_def)
  have first: "ending (chat_completions ?kw ?w) =
           Raised (APIError ''Failed to submit chat'' None (JObj [(''success'', JBool False)])
                     None None)
         \<and> judge 10 0 (JObj [(''success'', JBool False)]) =
                Fatal (APIError ''Failed to query chat status'' None
                         (JObj [(''success'', JBool False)]) None None)
         \<and> delete_conversation ''c1'' ?w = Value (JBool False)
         \<and> stop_chat ''s1'' ?w = Value (JBool False)
         \<and> list_conversations (Inr :: json \<Rightarrow> error + json) None 1 20 ?w = Value []
         \<and> list_models (Inr :: json \<Rightarrow> error + json) ?w = Value []"
    using inst by simp
  have later: "ending (chat_completions ?kw ?w') =
                 Raised (APIError ''Failed to query chat status'' None (JObj ?kvs) None None)"
    using inst rcv by simp
  have at_once: "ending (chat_completions ?kw ?w'') =
                 Raised (APIError ''Failed to query chat status'' None (JObj ?kvs) None None)"
    using inst submit resp t by simp
  from first later at_once call rcv submit show ?thesis by simp
qed

section \<open>The chat request\<close>

lemma payload_submit_request:
  "payload_field (submit_request kw) key = map_of (model_dump (build_request kw)) key"
  by (simp add: payload_field_def submit_request_def)

lemma requests_chat_completions:
  "\<exists>rest. requests (chat_completions kw w) = submit_request kw # rest"
  by (simp add: chat_completions_def)

text \<open>
  C6, as stated, fails: the client checks nothing.  A call that passes both a text input
  and a message list, and a negative token count, builds and posts a request that has
  both populated and carries the negative count.
\<close>

theorem request_invariant_counterexample:
  "has_text (build_request ((async_kwargs ''hi'' None None None 300)
      \<lparr> kw_messages := Some [JObj [(''role'', JStr ''user''), (''content'', JStr ''yo'')]],
        kw_max_new_tokens := Some (- 1) \<rparr>))
   \<and> has_messages (build_request ((async_kwargs ''hi'' None None None 300)
      \<lparr> kw_messages := Some [JObj [(''role'', JStr ''user''), (''content'', JStr ''yo'')]],
        kw_max_new_tokens := Some (- 1) \<rparr>))
   \<and> \<not> spec_request_invariant (build_request ((async_kwargs ''hi'' None None None 300)
      \<lparr> kw_messages := Some [JObj [(''role'', JStr ''user''), (''content'', JStr ''yo'')]],
        kw_max_new_tokens := Some (- 1) \<rparr>))
   \<and> requests (chat_completions ((async_kwargs ''hi'' None None None 300)
      \<lparr> kw_messages := Some [JObj [(''role'', JStr ''user''), (''content'', JStr ''yo'')]],
        kw_max_new_tokens := Some (- 1) \<rparr>) \<lparr> now = 0, script = [] \<rparr>)
     = [\<lparr> req_method = POST, req_path = ''/api/v1/chat/completions'',
          req_json = Some (JObj
            [(''user_input'', JStr ''hi''),
             (''messages'', JArr [JObj [(''role'', JStr ''user''), (''content'', JStr ''yo'')]]),
             (''user_name'', JStr ''cli_user''),
             (''max_new_tokens'', JInt (- 1)),
             (''incremental'', JBool True),
             (''ext_info'', JObj []),
             (''work_mode'', JStr ''async'')]),
          req_params = None \<rparr>]"
  by code_simp

text \<open>
  C6, amended.  The request \<open>chat_completions\<close> builds and posts carries the caller's text
  input, message list and maximal token count unchanged, and nothing is checked: it
  satisfies the invariant of the specification exactly when the caller's arguments do,
  that is, when exactly one of a non-empty text input and a non-empty message list is
  passed and the token count, if passed, is not negative.
\<close>

theorem request_carries_arguments:
  "(\<exists>rest. requests (chat_completions kw w) = submit_request kw # rest)
   \<and> payload_field (submit_request kw) ''user_input'' = Some (JStr (kw_user_input kw))
   \<and> payload_field (submit_request kw) ''messages'' = map_option JArr (kw_messages kw)
   \<and> payload_field (submit_request kw) ''max_new_tokens'' = map_option JInt (kw_max_new_tokens kw)
   \<and> spec_request_invariant (build_request kw) =
       (((kw_user_input kw \<noteq> []) \<noteq> (case kw_messages kw of None \<Rightarrow> False | Some ms \<Rightarrow> ms \<noteq> []))
        \<and> (case kw_max_new_tokens kw of None \<Rightarrow> True | Some n \<Rightarrow> 0 \<le> n))"
proof -
  have a: "payload_field (submit_request kw) ''user_input'' = Some (JStr (kw_user_input kw))"
    by (simp add: payload_submit_request model_dump_def build_request_def dump_field_def
             split: option.splits)
  have b: "payload_field (submit_request kw) ''messages'' = map_option JArr (kw_messages kw)"
    by (simp add: payload_submit_request model_dump_def build_request_def dump_field_def
             split: option.splits)
  have c: "payload_field (submit_request kw) ''max_new_tokens''
             = map_option JInt (kw_max_new_tokens kw)"
    by (simp add: payload_submit_request model_dump_def build_request_def dump_field_def
             split: option.splits)
  have d: "spec_request_invariant (build_request kw) =
       (((kw_user_input kw \<noteq> []) \<noteq> (case kw_messages kw of None \<Rightarrow> False | Some ms \<Rightarrow> ms \<noteq> []))
        \<and> (case kw_max_new_tokens kw of None \<Rightarrow> True | Some n \<Rightarrow> 0 \<le> n))"
    by (simp add: spec_request_invariant_def has_text_def has_messages_def build_request_def)
  from requests_chat_completions a b c d show ?thesis by blast
qed

theorem request_carries_arguments_witness:
  "payload_field (submit_request (async_kwargs ''hi'' None None None 300)) ''user_input''
     = Some (JStr ''hi'')
   \<and> payload_field (submit_request (async_kwargs ''hi'' None None None 300)) ''messages'' = None
   \<and> payload_field (submit_request (async_kwargs ''hi'' None None None 300)) ''max_new_tokens''
     = None
   \<and> spec_request_invariant (build_request (async_kwargs ''hi'' None None None 300))
   \<and> \<not> spec_request_invariant (build_request (async_kwargs [] None None None 300))"
  using request_carries_arguments[of "async_kwargs ''hi'' None None None 300"]
        request_carries_arguments[of "async_kwargs [] None None None 300"]
  by (simp add: async_kwargs_def)

section \<open>The user name of a request\<close>

text \<open>
  C10.  The payload \<open>chat_completions\<close> posts has the \<^verbatim>\<open>user_name\<close> \<^verbatim>\<open>cli_user\<close> when the
  caller passes no user name or the empty string, and the caller's user name unchanged
  when that is not empty; so the payload always names a user.
\<close>

theorem submitted_user_name:
  "(\<exists>rest. requests (chat_completions kw w) = submit_request kw # rest)
   \<and> payload_field (submit_request (kw\<lparr>kw_user_name := None\<rparr>)) ''user_name''
       = Some (JStr ''cli_user'')
   \<and> payload_field (submit_request (kw\<lparr>kw_user_name := Some []\<rparr>)) ''user_name''
       = Some (JStr ''cli_user'')
   \<and> (u \<noteq> [] \<longrightarrow>
        payload_field (submit_request (kw\<lparr>kw_user_name := Some u\<rparr>)) ''user_name''
          = Some (JStr u))
   \<and> (\<exists>n. payload_field (submit_request kw) ''user_name'' = Some (JStr n) \<and> n \<noteq> [])"
proof -
  have field: "payload_field (submit_request k) ''user_name''
                 = Some (JStr (user_name_or_default (kw_user_name k)))" for k
    by (simp add: payload_submit_request model_dump_def build_request_def dump_field_def
             split: option.splits)
  have "user_name_or_default (kw_user_name kw) \<noteq> []"
    by (simp add: user_name_or_default_def split: option.splits)
  with requests_chat_completions[of kw w] field show ?thesis
    by (auto simp: user_name_or_default_def)
qed

theorem submitted_user_name_witness:
  "''alice'' \<noteq> []
   \<and> payload_field (submit_request ((async_kwargs ''hi'' None None None 300)
        \<lparr>kw_user_name := Some ''alice''\<rparr>)) ''user_name'' = Some (JStr ''alice'')
   \<and> payload_field (submit_request ((async_kwargs ''hi'' None None None 300)
        \<lparr>kw_user_name := None\<rparr>)) ''user_name'' = Some (JStr ''cli_user'')"
  using submitted_user_name[of "async_kwargs ''hi'' None None None 300" _ "''alice''"]
  by simp

section \<open>The model list\<close>

lemma entry_name:
  assumes "entry item" and "truthy (name_of item)"
  shows "\<exists>s. name_of item = JStr s"
  using assms by (cases item) (auto simp: name_of_def split: option.splits json.splits)

lemma py_in_string: "py_in (JStr s) names = Inr (JStr s \<in> set names)"
  by (auto simp: py_in_def py_eq_def)

lemma models_loop_spec:
  assumes "\<forall>item \<in> set items. entry item"
  shows "models_loop new items seen acc =
         (case construct_all new (first_by_name
                 (filter (\<lambda>i. listed i \<and> name_of i \<notin> set seen) items)) of
            Inl e \<Rightarrow> Inl e
          | Inr ms \<Rightarrow> Inr (acc @ ms))"
  using assms
proof (induction items arbitrary: seen acc)
  case Nil
  then show ?case by simp
next
  case (Cons item rest)
  then have e: "entry item" and rest: "\<forall>i \<in> set rest. entry i" by auto
  note IH = Cons.IH[OF rest]
  from e obtain kvs where item: "item = JObj kvs" by (cases item) auto
  obtain h where h: "py_get item ''healthy'' JNull = Inr h" by (simp add: item)
  obtain n where n: "py_get item ''model_name'' JNull = Inr n" by (simp add: item)
  have hn: "healthy_entry item = truthy h" "name_of item = n"
    using h n by (simp_all add: healthy_entry_def name_of_def)
  show ?case
  proof (cases "listed item")
    case False
    then show ?thesis using h n hn IH by (auto simp: listed_def)
  next
    case True
    then have th: "truthy h" and tn: "truthy n" using hn by (auto simp: listed_def)
    from entry_name[OF e] tn hn obtain s where s: "n = JStr s" by auto
    show ?thesis
    proof (cases "n \<in> set seen")
      case True
      then show ?thesis using h n th tn s hn IH by (simp add: py_in_string)
    next
      case False
      have flt: "filter (\<lambda>i. listed i \<and> name_of i \<notin> set (n # seen)) rest =
                 filter (\<lambda>y. name_of y \<noteq> name_of item)
                   (filter (\<lambda>i. listed i \<and> name_of i \<notin> set seen) rest)"
        using hn by (auto intro: filter_cong)
      show ?thesis
        using h n th tn s hn False \<open>listed item\<close> IH[of "n # seen"] flt
        by (auto simp: py_in_string split: sum.splits)
    qed
  qed
qed

text \<open>
  C9, as stated, fails: a healthy entry whose \<^verbatim>\<open>model_name\<close> is empty is among the healthy
  entries deduplicated by name, and \<open>list_models\<close> leaves it out.
\<close>

theorem list_models_nameless_counterexample:
  "spec_list_models [JObj [(''model_name'', JStr []), (''healthy'', JBool True)]]
     = [JObj [(''model_name'', JStr []), (''healthy'', JBool True)]]
   \<and> list_models (Inr :: json \<Rightarrow> error + json)
       \<lparr> now = 0, script =
          [(0, ok_response (JObj [(''success'', JBool True),
             (''data'', JArr [JObj [(''model_name'', JStr []), (''healthy'', JBool True)]])]))] \<rparr>
     = Value []"
  by code_simp

text \<open>
  C9, amended.  For every model feed whose items are objects with a \<^verbatim>\<open>model_name\<close> that is
  a string, null or absent, \<open>list_models\<close> returns the entries that are healthy and have
  a non-empty \<^verbatim>\<open>model_name\<close>, deduplicated by \<^verbatim>\<open>model_name\<close>, keeping for each name the first
  such entry in the order of the feed; healthy entries without a name are left out.  Each
  entry is returned as the \<^verbatim>\<open>ModelInfo\<close> built from it, and the first entry the constructor
  rejects raises its error.  In particular a feed of two healthy entries with the same
  non-empty name gives exactly the first.
\<close>

theorem list_models_first_named_healthy:
  assumes "http_call w = Some (Inr (JObj kvs), w1)"
      and "map_of kvs ''success'' = Some (JBool True)"
      and "map_of kvs ''data'' = Some (JArr feed)"
      and "\<forall>item \<in> set feed. entry item"
  shows "list_models new_model w =
           result_of (construct_all new_model (first_by_name (filter listed feed)))
         \<and> (feed = [a, b] \<and> listed a \<and> listed b \<and> name_of a = name_of b \<longrightarrow>
              list_models new_model w = result_of (construct_all new_model [a]))"
proof -
  have loop: "models_loop new_model feed [] [] =
                construct_all new_model (first_by_name (filter listed feed))"
    using models_loop_spec[OF assms(4), of new_model "[]" "[]"]
    by (simp split: sum.splits)
  have main: "list_models new_model w =
           result_of (construct_all new_model (first_by_name (filter listed feed)))"
  proof (cases "feed = []")
    case True
    with assms(1-3) show ?thesis
      by (simp add: list_models_def success_and_data_def result_of_def)
  next
    case False
    with assms(1-3) loop show ?thesis
      by (simp add: list_models_def success_and_data_def)
  qed
  then show ?thesis by auto
qed

theorem list_models_first_named_healthy_witness:
  "http_call \<lparr> now = 0, script =
      [(0, ok_response (JObj [(''success'', JBool True),
         (''data'', JArr [JObj [(''model_name'', JStr ''m1''), (''healthy'', JBool True),
                                (''port'', JInt 1)],
                          JObj [(''model_name'', JStr ''m1''), (''healthy'', JBool True),
                                (''port'', JInt 2)]])]))] \<rparr>
     = Some (Inr (JObj [(''success'', JBool True),
         (''data'', JArr [JObj [(''model_name'', JStr ''m1''), (''healthy'', JBool True),
                                (''port'', JInt 1)],
                          JObj [(''model_name'', JStr ''m1''), (''healthy'', JBool True),
                                (''port'', JInt 2)]])]),
             \<lparr> now = 0, script = [] \<rparr>)
   \<and> entry (JObj [(''model_name'', JStr ''m1''), (''healthy'', JBool True), (''port'', JInt 1)])
   \<and> entry (JObj [(''model_name'', JStr ''m1''), (''healthy'', JBool True), (''port'', JInt 2)])
   \<and> listed (JObj [(''model_name'', JStr ''m1''), (''healthy'', JBool True), (''port'', JInt 1)])
   \<and> listed (JObj [(''model_name'', JStr ''m1''), (''healthy'', JBool True), (''port'', JInt 2)])
   \<and> list_models (Inr :: json \<Rightarrow> error + json) \<lparr> now = 0, script =
      [(0, ok_response (JObj [(''success'', JBool True),
         (''data'', JArr [JObj [(''model_name'', JStr ''m1''), (''healthy'', JBool True),
                                (''port'', JInt 1)],
                          JObj [(''model_name'', JStr ''m1''), (''healthy'', JBool True),
                                (''port'', JInt 2)]])]))] \<rparr>
     = Value [JObj [(''model_name'', JStr ''m1''), (''healthy'', JBool True), (''port'', JInt 1)]]"
proof -
  let ?a = "JObj [(''model_name'', JStr ''m1''), (''healthy'', JBool True), (''port'', JInt 1)]"
  let ?b = "JObj [(''model_name'', JStr ''m1''), (''healthy'', JBool True), (''port'', JInt 2)]"
  let ?kvs = "[(''success'', JBool True), (''data'', JArr [?a, ?b])]"
  let ?w = "\<lparr> now = 0, script = [(0, ok_response (JObj ?kvs))] \<rparr>"
  have call: "http_call ?w = Some (Inr (JObj ?kvs), \<lparr> now = 0, script = [] \<rparr>)"
    by code_simp
  have ok: "map_of ?kvs ''success'' = Some (JBool True)" by simp
  have data: "map_of ?kvs ''data'' = Some (JArr [?a, ?b])" by simp
  have shape: "\<forall>item \<in> set [?a, ?b]. entry item" by simp
  have la: "listed ?a" by code_simp
  have lb: "listed ?b" by code_simp
  have same: "name_of ?a = name_of ?b" by code_simp
  from list_models_first_named_healthy[OF call ok data shape,
         of "Inr :: json \<Rightarrow> error + json" ?a ?b]
       call shape la lb same
  show ?thesis by (simp add: result_of_def)
qed

end
